theory Spec2Isabelle
  imports Complex_Main
begin

text \<open>
  A model of the instrument drivers of the package
  \<open>measurement_control_drivers\<close>: the spectrum analyzer
  (\<open>spectrum_analyzer_scpi.py\<close>), the vector network analyzer
  (\<open>vna_rs_znl20.py\<close>), the arbitrary waveform generator
  (\<open>awg_rigol_dg922pro.py\<close>) and the signal generator
  (\<open>signal_generator_anapico_apsin20g.py\<close>). A method \<open>m\<close> of the
  class \<open>SpectrumAnalyzer\<close> is the constant \<open>sa_m\<close>, of \<open>VNA\<close>
  \<open>vna_m\<close>, of \<open>AWG_Rigol_DG922Pro\<close> \<open>awg_m\<close> and of
  \<open>AnaPico_sin20G\<close> \<open>anapico_m\<close>. Default arguments of the Python
  methods are passed explicitly.
\<close>

section \<open>Python text and floats\<close>

text \<open>
  A Python \<open>str\<close> is a list of \<open>char\<close>, one per code point; the code
  points are those below 256. Instrument replies are SCPI text, which is ASCII.
  \<open>str.strip()\<close> removes the characters for which \<open>str.isspace()\<close>
  holds: 0x09-0x0D, 0x1C-0x20, 0x85 and 0xA0.
\<close>

definition is_space :: "char \<Rightarrow> bool" where
  "is_space c =
     (let n = (of_char c :: nat)
      in (9 \<le> n \<and> n \<le> 13) \<or> (28 \<le> n \<and> n \<le> 32) \<or> n = 133 \<or> n = 160)"

definition strip :: "string \<Rightarrow> string" where
  "strip s = rev (dropWhile is_space (rev (dropWhile is_space s)))"

definition startswith :: "string \<Rightarrow> string \<Rightarrow> bool" where
  "startswith s p = (take (length p) s = p)"

definition replace_char :: "char \<Rightarrow> char \<Rightarrow> string \<Rightarrow> string" where
  "replace_char a b s = map (\<lambda>c. if c = a then b else c) s"

text \<open>\<open>s.split(sep)\<close> for a one-character separator; the result is never empty.\<close>

fun split_char :: "char \<Rightarrow> string \<Rightarrow> string list" where
  "split_char sep [] = [[]]"
| "split_char sep (c # cs) =
     (if c = sep then [] # split_char sep cs
      else (case split_char sep cs of
              [] \<Rightarrow> [[c]]
            | part # parts \<Rightarrow> (c # part) # parts))"

definition is_digit :: "char \<Rightarrow> bool" where
  "is_digit c = (let n = (of_char c :: nat) in 48 \<le> n \<and> n \<le> 57)"

definition digit_val :: "char \<Rightarrow> nat" where
  "digit_val c = of_char c - 48"

definition nat_of_digits :: "string \<Rightarrow> nat" where
  "nat_of_digits ds = foldl (\<lambda>n c. 10 * n + digit_val c) 0 ds"

definition to_lower :: "char \<Rightarrow> char" where
  "to_lower c = (let n = (of_char c :: nat) in if 65 \<le> n \<and> n \<le> 90 then char_of (n + 32) else c)"

fun digit_of_nat :: "nat \<Rightarrow> char" where
  "digit_of_nat n = char_of (48 + n mod 10)"

text \<open>\<open>str(n)\<close> for an integer: decimal digits, with a minus sign when negative.\<close>

fun str_nat :: "nat \<Rightarrow> string" where
  "str_nat n = (if n < 10 then [digit_of_nat n] else str_nat (n div 10) @ [digit_of_nat n])"

declare str_nat.simps [simp del]

definition str_int :: "int \<Rightarrow> string" where
  "str_int i = (if i < 0 then CHR ''-'' # str_nat (nat (- i)) else str_nat (nat i))"

text \<open>
  A Python \<open>float\<close> is an IEEE 754 binary64 value. Finite values are kept as
  the rational they denote (so \<open>0.0\<close> and \<open>-0.0\<close> are one value, as they
  are for \<open>==\<close>); the infinities and NaN are separate values. Every arithmetic
  operation computes the exact result and rounds it to the nearest double, ties
  to even, which is what the hardware does.
\<close>

datatype pyfloat = Fin rat | PInf | NInf | NaN

text \<open>
  \<open>bit_length n\<close> is the number of binary digits of a positive integer.
  For \<open>x > 0\<close>, \<open>ilog2 x\<close> is the exponent \<open>e\<close> with
  \<open>2^e \<le> x < 2^(e+1)\<close>.
\<close>

function bit_length :: "int \<Rightarrow> nat" where
  "bit_length n = (if n \<le> 0 then 0 else Suc (bit_length (n div 2)))"
  by pat_completeness auto
termination
  by (relation "measure nat") auto

declare bit_length.simps [simp del]

definition ilog2 :: "rat \<Rightarrow> int" where
  "ilog2 x =
     (let (p, q) = quotient_of x;
          d = int (bit_length p) - int (bit_length q)
      in if power_int 2 d \<le> x then d else d - 1)"

definition round_half_even :: "rat \<Rightarrow> int" where
  "round_half_even q =
     (let n = \<lfloor>q\<rfloor>; r = q - of_int n
      in if r < 1 / 2 then n else if 1 / 2 < r then n + 1
         else if even n then n else n + 1)"

text \<open>
  Rounding to binary64: 53 significant bits, the spacing never finer than
  \<open>2^-1074\<close> (subnormals), and a rounded magnitude of \<open>2^1024\<close> or more
  overflows to an infinity.
\<close>

definition round_to_double :: "rat \<Rightarrow> pyfloat" where
  "round_to_double x =
     (if x = 0 then Fin 0
      else let a = \<bar>x\<bar>;
               g = max (ilog2 a - 52) (- 1074);
               r = of_int (round_half_even (a / power_int 2 g)) * power_int 2 g
           in if power_int 2 1024 \<le> r then (if 0 < x then PInf else NInf)
              else Fin (if 0 < x then r else - r))"

fun fneg :: "pyfloat \<Rightarrow> pyfloat" where
  "fneg (Fin x) = Fin (- x)"
| "fneg PInf = NInf"
| "fneg NInf = PInf"
| "fneg NaN = NaN"

fun fadd :: "pyfloat \<Rightarrow> pyfloat \<Rightarrow> pyfloat" where
  "fadd NaN y = NaN"
| "fadd x NaN = NaN"
| "fadd PInf NInf = NaN"
| "fadd NInf PInf = NaN"
| "fadd PInf y = PInf"
| "fadd x PInf = PInf"
| "fadd NInf y = NInf"
| "fadd x NInf = NInf"
| "fadd (Fin a) (Fin b) = round_to_double (a + b)"

definition fsub :: "pyfloat \<Rightarrow> pyfloat \<Rightarrow> pyfloat" where
  "fsub x y = fadd x (fneg y)"

definition inf_of_sign :: "bool \<Rightarrow> pyfloat" where
  "inf_of_sign negative = (if negative then NInf else PInf)"




text \<open>Comparisons: every comparison with NaN is false.\<close>

fun fle :: "pyfloat \<Rightarrow> pyfloat \<Rightarrow> bool" where
  "fle NaN y = False"
| "fle x NaN = False"
| "fle NInf y = True"
| "fle x PInf = True"
| "fle PInf y = False"
| "fle x NInf = False"
| "fle (Fin a) (Fin b) = (a \<le> b)"

fun flt :: "pyfloat \<Rightarrow> pyfloat \<Rightarrow> bool" where
  "flt NaN y = False"
| "flt x NaN = False"
| "flt PInf y = False"
| "flt x NInf = False"
| "flt NInf y = True"
| "flt x PInf = True"
| "flt (Fin a) (Fin b) = (a < b)"

definition fne :: "pyfloat \<Rightarrow> pyfloat \<Rightarrow> bool" where
  "fne x y = (x = NaN \<or> y = NaN \<or> x \<noteq> y)"


text \<open>A float literal of the source, such as \<open>0.001\<close>, is the nearest double.\<close>

definition float_lit :: "rat \<Rightarrow> pyfloat" where
  "float_lit x = round_to_double x"

section \<open>Exceptions, the transport and the world\<close>

text \<open>
  The drivers talk to an instrument through a PyVISA resource. The resource is
  not code of the drivers, so it is modelled as a deterministic transport: what
  the next operation on the handle does is a function of everything that was
  attempted on the handle before. Every attempt, successful or not, is
  recorded in the history, which makes "no I/O was performed" and "these
  commands were attempted in this order" statements about the history.

  Python exceptions are values of type \<open>exn\<close>. Only subclasses of
  \<open>Exception\<close> are modelled (the ones an \<open>except Exception\<close> clause
  catches). The text carried by \<open>VisaIOError\<close> stands for \<open>str(e)\<close>.
\<close>

datatype exn =
    VisaIOError string
  | InvalidSession
  | RuntimeError string
  | ValueError string
  | OverflowError string
  | OtherException string

datatype event =
    Write string
  | Query string
  | CloseResource
  | CloseManager

record transport =
  on_write :: "event list \<Rightarrow> string \<Rightarrow> exn option"
  on_query :: "event list \<Rightarrow> string \<Rightarrow> exn + string"
  on_close :: "event list \<Rightarrow> exn option"
  on_rm_close :: "event list \<Rightarrow> exn option"

record world =
  history :: "event list"
  stdout :: "string list"

type_synonym 'a io = "world \<Rightarrow> (exn + 'a) \<times> world"

definition log_event :: "event \<Rightarrow> world \<Rightarrow> world" where
  "log_event ev w = w\<lparr>history := history w @ [ev]\<rparr>"

definition log_events :: "event list \<Rightarrow> world \<Rightarrow> world" where
  "log_events evs w = w\<lparr>history := history w @ evs\<rparr>"

definition return_io :: "'a \<Rightarrow> 'a io" where
  "return_io x w = (Inr x, w)"

definition raise_io :: "exn \<Rightarrow> 'a io" where
  "raise_io e w = (Inl e, w)"

definition bind_io :: "'a io \<Rightarrow> ('a \<Rightarrow> 'b io) \<Rightarrow> 'b io" where
  "bind_io m f w = (case m w of (Inl e, w') \<Rightarrow> (Inl e, w') | (Inr x, w') \<Rightarrow> f x w')"

text \<open>The raw calls on the PyVISA resource: \<open>inst.write(cmd)\<close>, \<open>inst.query(cmd)\<close>.\<close>

definition visa_write :: "transport \<Rightarrow> string \<Rightarrow> unit io" where
  "visa_write t cmd w =
     (case on_write t (history w) cmd of
        None \<Rightarrow> (Inr (), log_event (Write cmd) w)
      | Some e \<Rightarrow> (Inl e, log_event (Write cmd) w))"

definition visa_query :: "transport \<Rightarrow> string \<Rightarrow> string io" where
  "visa_query t cmd w = (on_query t (history w) cmd, log_event (Query cmd) w)"

definition quote :: "string \<Rightarrow> string" where
  "quote s = [CHR 0x27] @ s @ [CHR 0x27]"

section \<open>SpectrumAnalyzer: write, query and the command variant resolver\<close>

text \<open>
  \<open>SpectrumAnalyzer.write\<close> and \<open>SpectrumAnalyzer.query\<close> turn a
  \<open>VisaIOError\<close> into a \<open>RuntimeError\<close> naming the command; any other
  exception of the resource passes through unchanged.
\<close>

definition wrap_write_error :: "string \<Rightarrow> exn \<Rightarrow> exn" where
  "wrap_write_error cmd ex =
     (case ex of
        VisaIOError e \<Rightarrow> RuntimeError (''VISA write error en '' @ quote cmd @ '': '' @ e)
      | _ \<Rightarrow> ex)"

definition wrap_query_error :: "string \<Rightarrow> exn \<Rightarrow> exn" where
  "wrap_query_error cmd ex =
     (case ex of
        VisaIOError e \<Rightarrow> RuntimeError (''VISA query error en '' @ quote cmd @ '': '' @ e)
      | _ \<Rightarrow> ex)"

definition sa_write :: "transport \<Rightarrow> string \<Rightarrow> unit io" where
  "sa_write t cmd w =
     (case visa_write t cmd w of
        (Inl ex, w') \<Rightarrow> (Inl (wrap_write_error cmd ex), w')
      | (Inr u, w') \<Rightarrow> (Inr (), w'))"

definition sa_query :: "transport \<Rightarrow> string \<Rightarrow> string io" where
  "sa_query t cmd w =
     (case visa_query t cmd w of
        (Inl ex, w') \<Rightarrow> (Inl (wrap_query_error cmd ex), w')
      | (Inr r, w') \<Rightarrow> (Inr r, w'))"

text \<open>
  \<open>_try_write_any\<close> and \<open>_try_query_any\<close>: the \<open>for\<close> loop over the
  candidates, with \<open>last_err\<close> as the loop variable. An exception object is
  truthy, so \<open>raise last_err if last_err else RuntimeError(...)\<close> raises the
  stored exception whenever one was stored.
\<close>

definition no_variant :: exn where
  "no_variant = RuntimeError ''No SCPI variant worked''"

fun try_write_loop :: "transport \<Rightarrow> string list \<Rightarrow> exn option \<Rightarrow> unit io" where
  "try_write_loop t [] last_err w =
     (Inl (case last_err of Some e \<Rightarrow> e | None \<Rightarrow> no_variant), w)"
| "try_write_loop t (c # cs) last_err w =
     (case sa_write t c w of
        (Inr u, w') \<Rightarrow> (Inr (), w')
      | (Inl e, w') \<Rightarrow> try_write_loop t cs (Some e) w')"

definition sa_try_write_any :: "transport \<Rightarrow> string list \<Rightarrow> unit io" where
  "sa_try_write_any t cmds w = try_write_loop t cmds None w"

fun try_query_loop :: "transport \<Rightarrow> string list \<Rightarrow> exn option \<Rightarrow> string io" where
  "try_query_loop t [] last_err w =
     (Inl (case last_err of Some e \<Rightarrow> e | None \<Rightarrow> no_variant), w)"
| "try_query_loop t (c # cs) last_err w =
     (case sa_query t c w of
        (Inr r, w') \<Rightarrow> (Inr r, w')
      | (Inl e, w') \<Rightarrow> try_query_loop t cs (Some e) w')"

definition sa_try_query_any :: "transport \<Rightarrow> string list \<Rightarrow> string io" where
  "sa_try_query_any t cmds w = try_query_loop t cmds None w"

section \<open>Python's float() and int() on instrument replies\<close>

text \<open>
  \<open>float(s)\<close> for a string. Leading and trailing whitespace is removed
  first; the whitespace of \<open>float\<close> is narrower than that of
  \<open>str.strip()\<close>: 0x09-0x0D and 0x20, and the two non-ASCII spaces 0x85 and
  0xA0, which \<open>float\<close> turns into blanks, but not 0x1C-0x1F. Underscores are
  accepted between digits only and removed. What remains is an optional sign
  followed by \<open>inf\<close>, \<open>infinity\<close> or \<open>nan\<close> (any case), or by a
  decimal number with optional fraction and exponent. The whole text must be
  consumed, otherwise \<open>ValueError\<close> is raised, its message carrying
  \<open>repr\<close> of the original string. The decimal value is rounded to the nearest
  double; a too large value gives an infinity, not an error.
\<close>

definition is_float_space :: "char \<Rightarrow> bool" where
  "is_float_space c =
     (let n = (of_char c :: nat) in (9 \<le> n \<and> n \<le> 13) \<or> n = 32 \<or> n = 133 \<or> n = 160)"

definition float_strip :: "string \<Rightarrow> string" where
  "float_strip s = rev (dropWhile is_float_space (rev (dropWhile is_float_space s)))"

fun strip_underscores :: "char \<Rightarrow> string \<Rightarrow> string option" where
  "strip_underscores prev [] = (if prev = CHR ''_'' then None else Some [])"
| "strip_underscores prev (c # cs) =
     (if c = CHR ''_'' then (if is_digit prev then strip_underscores c cs else None)
      else if prev = CHR ''_'' \<and> \<not> is_digit c then None
      else map_option ((#) c) (strip_underscores c cs))"

definition take_sign :: "string \<Rightarrow> bool \<times> string" where
  "take_sign s =
     (case s of
        [] \<Rightarrow> (False, [])
      | c # cs \<Rightarrow> if c = CHR ''-'' then (True, cs) else if c = CHR ''+'' then (False, cs)
                 else (False, s))"

definition parse_exponent :: "string \<Rightarrow> int \<times> string" where
  "parse_exponent s =
     (case s of
        [] \<Rightarrow> (0, [])
      | c # cs \<Rightarrow>
          if c = CHR ''e'' \<or> c = CHR ''E'' then
            (let (negative, r) = take_sign cs; ds = takeWhile is_digit r
             in if ds = [] then (0, s)
                else ((if negative then - int (nat_of_digits ds) else int (nat_of_digits ds)),
                      dropWhile is_digit r))
          else (0, s))"

definition parse_decimal :: "string \<Rightarrow> rat option" where
  "parse_decimal s =
     (let ip = takeWhile is_digit s;
          r1 = dropWhile is_digit s;
          has_dot = (r1 \<noteq> [] \<and> hd r1 = CHR ''.'');
          fp = (if has_dot then takeWhile is_digit (tl r1) else []);
          r2 = (if has_dot then dropWhile is_digit (tl r1) else r1)
      in if ip = [] \<and> fp = [] then None
         else (let (ex, r3) = parse_exponent r2
               in if r3 \<noteq> [] then None
                  else Some (of_nat (nat_of_digits (ip @ fp)) * power_int 10 (ex - int (length fp)))))"

text \<open>
  \<open>repr(s)\<close> for a string: double quotes when the string has a single quote
  and no double quote, single quotes otherwise; the chosen quote and the
  backslash are escaped by a backslash; tab, newline and carriage return are
  written as a backslash followed by \<open>t\<close>, \<open>n\<close>, \<open>r\<close>; every other
  character that is not printable (0x00-0x1F, 0x7F-0xA0, 0xAD) is written as
  a backslash, \<open>x\<close> and two lower-case hex digits.
\<close>

definition backslash :: char where
  "backslash = CHR 0x5C"

definition hex_digit :: "nat \<Rightarrow> char" where
  "hex_digit n = (if n < 10 then char_of (48 + n) else char_of (87 + n))"

definition is_printable :: "char \<Rightarrow> bool" where
  "is_printable c =
     (let n = (of_char c :: nat) in (32 \<le> n \<and> n < 127) \<or> (161 \<le> n \<and> n \<noteq> 173))"

definition repr_char :: "char \<Rightarrow> char \<Rightarrow> string" where
  "repr_char q c =
     (if c = q \<or> c = backslash then [backslash, c]
      else if c = CHR 0x09 then [backslash, CHR ''t'']
      else if c = CHR 0x0A then [backslash, CHR ''n'']
      else if c = CHR 0x0D then [backslash, CHR ''r'']
      else if is_printable c then [c]
      else [backslash, CHR ''x'', hex_digit (of_char c div 16), hex_digit (of_char c mod 16)])"

definition repr_str :: "string \<Rightarrow> string" where
  "repr_str s =
     (let q = (if CHR 0x27 \<in> set s \<and> CHR 0x22 \<notin> set s then CHR 0x22 else CHR 0x27)
      in [q] @ concat (map (repr_char q) s) @ [q])"

definition float_error :: "string \<Rightarrow> exn" where
  "float_error s = ValueError (''could not convert string to float: '' @ repr_str s)"

definition py_float :: "string \<Rightarrow> exn + pyfloat" where
  "py_float s =
     (case strip_underscores (CHR 0x00) (float_strip s) of
        None \<Rightarrow> Inl (float_error s)
      | Some s1 \<Rightarrow>
          (let (negative, body) = take_sign s1; lb = map to_lower body
           in if lb = ''inf'' \<or> lb = ''infinity'' then Inr (inf_of_sign negative)
              else if lb = ''nan'' then Inr NaN
              else (case parse_decimal body of
                      None \<Rightarrow> Inl (float_error s)
                    | Some v \<Rightarrow> Inr (round_to_double (if negative then - v else v)))))"


definition lift_io :: "exn + 'a \<Rightarrow> 'a io" where
  "lift_io r w = (r, w)"

definition print_io :: "string \<Rightarrow> unit io" where
  "print_io msg w = (Inr (), w\<lparr>stdout := stdout w @ [msg]\<rparr>)"

text \<open>
  The text an f-string produces for a float argument (\<open>repr\<close>, the shortest
  decimal that reads back as the same double) is a parameter \<open>fmt\<close> of every
  function that formats one.
\<close>

type_synonym float_format = "pyfloat \<Rightarrow> string"

section \<open>SpectrumAnalyzer: error queue, close, span\<close>

text \<open>
  \<open>check_errors\<close>: the loop \<open>for _ in range(max_reads)\<close> with its
  \<open>break\<close>. The number of iterations left is the recursion argument;
  \<open>range(n)\<close> is empty for \<open>n \<le> 0\<close>. The same loop body is in
  \<open>VNA.check_errors\<close>, there with the bound 20.
\<close>

fun drain_loop :: "(string \<Rightarrow> string io) \<Rightarrow> nat \<Rightarrow> string list \<Rightarrow> string list io" where
  "drain_loop query 0 errs w = (Inr errs, w)"
| "drain_loop query (Suc n) errs w =
     (case query ''SYST:ERR?'' w of
        (Inl e, w') \<Rightarrow> (Inl e, w')
      | (Inr err, w') \<Rightarrow>
          (if startswith err ''0'' then (Inr (errs @ [strip err]), w')
           else drain_loop query n (errs @ [strip err]) w'))"

definition sa_check_errors :: "transport \<Rightarrow> int \<Rightarrow> string list io" where
  "sa_check_errors t max_reads w = drain_loop (sa_query t) (nat max_reads) [] w"




definition sa_set_span :: "float_format \<Rightarrow> transport \<Rightarrow> pyfloat \<Rightarrow> pyfloat \<Rightarrow> int \<Rightarrow> unit io" where
  "sa_set_span fmt t start_hz stop_hz points =
     (if fle stop_hz start_hz then raise_io (ValueError ''stop_hz debe ser mayor que start_hz'')
      else bind_io (sa_try_write_any t [''FREQ:STAR '' @ fmt start_hz, ''SENS:FREQ:STAR '' @ fmt start_hz])
        (\<lambda>_. bind_io (sa_try_write_any t [''FREQ:STOP '' @ fmt stop_hz, ''SENS:FREQ:STOP '' @ fmt stop_hz])
        (\<lambda>_. sa_try_write_any t [''SWE:POIN '' @ str_int points, ''SENS:SWE:POIN '' @ str_int points])))"

definition sa_get_start_stop :: "transport \<Rightarrow> (pyfloat \<times> pyfloat) io" where
  "sa_get_start_stop t =
     bind_io (sa_try_query_any t [''FREQ:STAR?'', ''SENS:FREQ:STAR?''])
       (\<lambda>r1. bind_io (lift_io (py_float r1))
       (\<lambda>f_start. bind_io (sa_try_query_any t [''FREQ:STOP?'', ''SENS:FREQ:STOP?''])
       (\<lambda>r2. bind_io (lift_io (py_float r2))
       (\<lambda>f_stop. return_io (f_start, f_stop)))))"

section \<open>SpectrumAnalyzer: trace and frequency axis\<close>

definition trace_name :: "int + string \<Rightarrow> string" where
  "trace_name trace = (case trace of Inl n \<Rightarrow> ''TRACE'' @ str_int n | Inr s \<Rightarrow> s)"

definition trace_queries :: "string \<Rightarrow> string list" where
  "trace_queries trc = [''TRAC:DATA? '' @ trc, ''TRAC? '' @ trc, ''TRAC:DATA?'']"

definition newline :: char where
  "newline = CHR 0x0A"

text \<open>
  The first parse of \<open>fetch_trace\<close>: the loop over the parts with its
  \<open>try: vals.append(float(p)) except ValueError: pass\<close>.
\<close>

fun parse_lenient :: "string list \<Rightarrow> pyfloat list \<Rightarrow> exn + pyfloat list" where
  "parse_lenient [] vals = Inr vals"
| "parse_lenient (p # ps) vals =
     (if strip p \<noteq> [] then
        (case py_float (strip p) of
           Inr v \<Rightarrow> parse_lenient ps (vals @ [v])
         | Inl (ValueError m) \<Rightarrow> parse_lenient ps vals
         | Inl e \<Rightarrow> Inl e)
      else parse_lenient ps vals)"

text \<open>The list comprehension of the retry: \<open>[float(x) for x in ... if x.strip()]\<close>.\<close>

fun parse_strict :: "string list \<Rightarrow> exn + pyfloat list" where
  "parse_strict [] = Inr []"
| "parse_strict (x # xs) =
     (if strip x \<noteq> [] then
        (case py_float x of
           Inl e \<Rightarrow> Inl e
         | Inr v \<Rightarrow> (case parse_strict xs of Inl e \<Rightarrow> Inl e | Inr vs \<Rightarrow> Inr (v # vs)))
      else parse_strict xs)"

definition first_parts :: "string \<Rightarrow> string list" where
  "first_parts data_str =
     split_char CHR '','' (replace_char CHR '';'' CHR '','' (replace_char newline CHR '','' data_str))"

definition retry_parts :: "string \<Rightarrow> string list" where
  "retry_parts data_str = split_char CHR '','' (replace_char newline CHR '','' data_str)"

definition sa_fetch_trace :: "transport \<Rightarrow> int + string \<Rightarrow> pyfloat list io" where
  "sa_fetch_trace t trace =
     (let trc = trace_name trace in
      bind_io (sa_try_query_any t (trace_queries trc))
       (\<lambda>data_str. bind_io (lift_io (parse_lenient (first_parts data_str) []))
       (\<lambda>vals. if vals = [] then
                 bind_io (sa_try_write_any t [''FORM ASC'', ''FORM:DATA ASC''])
                  (\<lambda>_. bind_io (sa_try_query_any t (trace_queries trc))
                  (\<lambda>data_str2. lift_io (parse_strict (retry_parts data_str2))))
               else return_io vals)))"



section \<open>SpectrumAnalyzer: markers\<close>

definition sa_set_marker_x :: "float_format \<Rightarrow> transport \<Rightarrow> int \<Rightarrow> pyfloat \<Rightarrow> unit io" where
  "sa_set_marker_x fmt t idx freq_hz =
     bind_io (sa_get_start_stop t)
       (\<lambda>(f_start, f_stop).
          if \<not> (fle f_start freq_hz \<and> fle freq_hz f_stop) then
            raise_io (ValueError (''Frecuencia '' @ fmt freq_hz @ '' fuera de span ['' @ fmt f_start
                                  @ '', '' @ fmt f_stop @ '']''))
          else sa_try_write_any t [''CALC:MARK'' @ str_int idx @ '':X '' @ fmt freq_hz,
                                   ''CALC:MARKER'' @ str_int idx @ '':X '' @ fmt freq_hz])"

definition sa_get_marker_xy :: "transport \<Rightarrow> int \<Rightarrow> (pyfloat \<times> pyfloat) io" where
  "sa_get_marker_xy t idx =
     bind_io (sa_try_query_any t [''CALC:MARK'' @ str_int idx @ '':X?'', ''CALC:MARKER'' @ str_int idx @ '':X?''])
       (\<lambda>r1. bind_io (lift_io (py_float r1))
       (\<lambda>x. bind_io (sa_try_query_any t [''CALC:MARK'' @ str_int idx @ '':Y?'', ''CALC:MARKER'' @ str_int idx @ '':Y?''])
       (\<lambda>r2. bind_io (lift_io (py_float r2))
       (\<lambda>y. return_io (x, y)))))"

text \<open>
  \<open>get_delta_reading\<close>: \<open>direct_delta\<close> is the body of the \<open>try\<close>,
  \<open>manual_delta\<close> the body of \<open>except Exception\<close>.
\<close>

definition direct_delta :: "transport \<Rightarrow> int \<Rightarrow> (pyfloat \<times> pyfloat) io" where
  "direct_delta t del_idx =
     bind_io (sa_try_query_any t [''CALC:MARK'' @ str_int del_idx @ '':DELT:X?'',
                                  ''CALC:MARKER'' @ str_int del_idx @ '':DELTA:X?''])
       (\<lambda>r1. bind_io (lift_io (py_float r1))
       (\<lambda>df. bind_io (sa_try_query_any t [''CALC:MARK'' @ str_int del_idx @ '':DELT:Y?'',
                                          ''CALC:MARKER'' @ str_int del_idx @ '':DELTA:Y?''])
       (\<lambda>r2. bind_io (lift_io (py_float r2))
       (\<lambda>da. return_io (df, da)))))"

definition manual_delta :: "transport \<Rightarrow> int \<Rightarrow> int \<Rightarrow> (pyfloat \<times> pyfloat) io" where
  "manual_delta t ref_idx del_idx =
     bind_io (sa_get_marker_xy t ref_idx)
       (\<lambda>(x1, y1). bind_io (sa_get_marker_xy t del_idx)
       (\<lambda>(x2, y2). return_io (fsub x2 x1, fsub y2 y1)))"

definition sa_get_delta_reading :: "transport \<Rightarrow> int \<Rightarrow> int \<Rightarrow> (pyfloat \<times> pyfloat) io" where
  "sa_get_delta_reading t ref_idx del_idx w =
     (case direct_delta t del_idx w of
        (Inr v, w') \<Rightarrow> (Inr v, w')
      | (Inl e, w') \<Rightarrow> manual_delta t ref_idx del_idx w')"

section \<open>VNA\<close>

definition vna_write :: "transport \<Rightarrow> string \<Rightarrow> unit io" where
  "vna_write t cmd w =
     (case visa_write t cmd w of
        (Inl ex, w') \<Rightarrow> (Inl (wrap_write_error cmd ex), w')
      | (Inr u, w') \<Rightarrow> (Inr (), w'))"

definition vna_query :: "transport \<Rightarrow> string \<Rightarrow> string io" where
  "vna_query t cmd w =
     (case visa_query t cmd w of
        (Inl ex, w') \<Rightarrow> (Inl (wrap_query_error cmd ex), w')
      | (Inr r, w') \<Rightarrow> (Inr r, w'))"

definition vna_check_errors :: "transport \<Rightarrow> string list io" where
  "vna_check_errors t w = drain_loop (vna_query t) 20 [] w"

definition vna_set_span :: "float_format \<Rightarrow> transport \<Rightarrow> pyfloat \<Rightarrow> pyfloat \<Rightarrow> int \<Rightarrow> unit io" where
  "vna_set_span fmt t start_freq stop_freq points =
     (if fle stop_freq start_freq then
        raise_io (ValueError ''Stop frequency must be greater than start frequency'')
      else bind_io (vna_write t (''SENS:FREQ:STAR '' @ fmt start_freq))
        (\<lambda>_. bind_io (vna_write t (''SENS:FREQ:STOP '' @ fmt stop_freq))
        (\<lambda>_. vna_write t (''SENS:SWE:POIN '' @ str_int points))))"

definition vna_set_marker_x :: "float_format \<Rightarrow> transport \<Rightarrow> int \<Rightarrow> pyfloat \<Rightarrow> unit io" where
  "vna_set_marker_x fmt t idx freq_hz =
     bind_io (vna_query t ''SENS:FREQ:STAR?'')
       (\<lambda>r1. bind_io (lift_io (py_float r1))
       (\<lambda>f_start. bind_io (vna_query t ''SENS:FREQ:STOP?'')
       (\<lambda>r2. bind_io (lift_io (py_float r2))
       (\<lambda>f_stop.
          if \<not> (fle f_start freq_hz \<and> fle freq_hz f_stop) then
            raise_io (ValueError (''Frecuencia '' @ fmt freq_hz @ '' fuera del sweep ['' @ fmt f_start
                                  @ '', '' @ fmt f_stop @ '']''))
          else vna_write t (''CALC:MARK'' @ str_int idx @ '':X '' @ fmt freq_hz)))))"

section \<open>AWG (Rigol DG922 Pro) and signal generator (AnaPico)\<close>



definition awg_set_sin ::
  "float_format \<Rightarrow> transport \<Rightarrow> int \<Rightarrow> pyfloat \<Rightarrow> pyfloat \<Rightarrow> pyfloat \<Rightarrow> pyfloat \<Rightarrow> unit io" where
  "awg_set_sin fmt t channel frequency amplitude offset phase =
     bind_io (if flt amplitude (float_lit (1 / 1000)) then
                bind_io (print_io ''Amplitude below minimum (0.001). Setting it to 0.001.'')
                  (\<lambda>_. return_io (float_lit (1 / 1000)))
              else return_io amplitude)
       (\<lambda>amplitude'. bind_io (visa_write t ('':SOUR'' @ str_int channel @ '':APPL:SIN '' @ fmt frequency
                                             @ '','' @ fmt amplitude' @ '','' @ fmt offset))
       (\<lambda>_. if fne phase (float_lit 0) then
               visa_write t ('':SOUR'' @ str_int channel @ '':PHAS '' @ fmt phase)
             else return_io ()))"



section \<open>Example transports\<close>

text \<open>
  Concrete transports at which the theorems below are instantiated:
  \<open>table_transport f\<close> answers every command by looking it up in \<open>f\<close>,
  whatever happened before; \<open>replay_transport rs\<close> answers the \<open>n\<close>-th
  operation on the handle with the \<open>n\<close>-th entry of \<open>rs\<close> and times out
  afterwards; \<open>pyvisa_transport\<close> accepts every command on an open handle,
  raises \<open>InvalidSession\<close> for I/O on a handle that was closed, and lets
  \<open>close()\<close> be repeated, as a PyVISA resource does.
\<close>

definition w0 :: world where
  "w0 = \<lparr>history = [], stdout = []\<rparr>"

definition table_transport :: "(string \<Rightarrow> exn + string) \<Rightarrow> transport" where
  "table_transport f =
     \<lparr>on_write = (\<lambda>h c. case f c of Inl e \<Rightarrow> Some e | Inr r \<Rightarrow> None),
      on_query = (\<lambda>h c. f c),
      on_close = (\<lambda>h. None),
      on_rm_close = (\<lambda>h. None)\<rparr>"

definition replay_transport :: "(exn + string) list \<Rightarrow> transport" where
  "replay_transport rs =
     \<lparr>on_write = (\<lambda>h c. if length h < length rs
                         then (case rs ! length h of Inl e \<Rightarrow> Some e | Inr r \<Rightarrow> None)
                         else Some (VisaIOError ''timeout'')),
      on_query = (\<lambda>h c. if length h < length rs then rs ! length h
                         else Inl (VisaIOError ''timeout'')),
      on_close = (\<lambda>h. None),
      on_rm_close = (\<lambda>h. None)\<rparr>"

definition pyvisa_transport :: transport where
  "pyvisa_transport =
     \<lparr>on_write = (\<lambda>h c. if CloseResource \<in> set h then Some InvalidSession else None),
      on_query = (\<lambda>h c. if CloseResource \<in> set h then Inl InvalidSession else Inr ''0''),
      on_close = (\<lambda>h. None),
      on_rm_close = (\<lambda>h. None)\<rparr>"


definition only_C_works :: "string \<Rightarrow> exn + string" where
  "only_C_works c = (if c = ''C'' then Inr ''ok'' else Inl (VisaIOError (''rejected '' @ c)))"

text \<open>
  \<open>example_format\<close> gives Python's text for the floats that occur in the
  examples. \<open>span_script\<close> is a device that reports the span 1000 Hz to
  2000 Hz. \<open>marker_table\<close> is a device without direct delta readout whose
  markers 1 and 2 sit at (100, -10) and (250, -30). \<open>trace_table\<close> answers
  the first trace query with the reply of the specification's example.
\<close>

definition example_format :: float_format where
  "example_format x =
     (if x = Fin 0 then ''0.0''
      else if x = Fin 1000 then ''1000.0''
      else if x = Fin 2000 then ''2000.0''
      else if x = Fin 5000 then ''5000.0''
      else if x = float_lit (1 / 1000) then ''0.001''
      else ''?'')"

definition span_script :: "(exn + string) list" where
  "span_script = [Inr ''1000'', Inr ''2000'']"

definition marker_table :: "string \<Rightarrow> exn + string" where
  "marker_table c =
     (if c = ''CALC:MARK1:X?'' then Inr ''100''
      else if c = ''CALC:MARK1:Y?'' then Inr ''-10''
      else if c = ''CALC:MARK2:X?'' then Inr ''250''
      else if c = ''CALC:MARK2:Y?'' then Inr ''-30''
      else Inl (VisaIOError ''unsupported''))"

text \<open>
  \<open>garbled_delta_table\<close> is the same device with direct delta readout, whose
  delta Y reply starts with the control character 0x1F: \<open>str.strip()\<close> would
  remove it, \<open>float()\<close> does not accept it.
\<close>

definition garbled_delta_table :: "string \<Rightarrow> exn + string" where
  "garbled_delta_table c =
     (if c = ''CALC:MARK2:DELT:X?'' then Inr ''150''
      else if c = ''CALC:MARK2:DELT:Y?'' then Inr (CHR 0x1F # ''-20'')
      else marker_table c)"

definition trace_table :: "string \<Rightarrow> exn + string" where
  "trace_table c =
     (if c = ''TRAC:DATA? TRACE1'' then Inr ''-10.5,-20.1,,abc,-5.0''
      else Inl (VisaIOError ''unsupported''))"

section \<open>Notions used in the statements\<close>

text \<open>
  The outcome of attempting candidate \<open>j\<close> of a candidate list, in the world
  reached after candidates \<open>0..j-1\<close> were attempted.
\<close>

definition write_attempt :: "transport \<Rightarrow> string list \<Rightarrow> world \<Rightarrow> nat \<Rightarrow> exn + unit" where
  "write_attempt t cmds w j = fst (sa_write t (cmds ! j) (log_events (map Write (take j cmds)) w))"

definition query_attempt :: "transport \<Rightarrow> string list \<Rightarrow> world \<Rightarrow> nat \<Rightarrow> exn + string" where
  "query_attempt t cmds w j = fst (sa_query t (cmds ! j) (log_events (map Query (take j cmds)) w))"

text \<open>
  The outcome of the \<open>j\<close>-th read of the error queue through the query
  function \<open>q\<close>, in the world reached after \<open>j\<close> earlier reads.
\<close>

definition error_reply :: "(string \<Rightarrow> string io) \<Rightarrow> world \<Rightarrow> nat \<Rightarrow> exn + string" where
  "error_reply q w j = fst (q ''SYST:ERR?'' (log_events (replicate j (Query ''SYST:ERR?'')) w))"

definition drain_script :: "(exn + string) list" where
  "drain_script = [Inr ''1,err'', Inr ''2,err'', Inr ''0,No error'']"

definition always_error :: "string \<Rightarrow> exn + string" where
  "always_error c = Inr ''-113,Undefined header''"

text \<open>
  The value a part of a trace reply contributes to the first parse: none when
  the part is blank or does not read as a float.
\<close>

definition token_value :: "string \<Rightarrow> pyfloat option" where
  "token_value p =
     (if strip p = [] then None
      else (case py_float (strip p) of Inr v \<Rightarrow> Some v | Inl e \<Rightarrow> None))"

definition lenient_values :: "string list \<Rightarrow> pyfloat list" where
  "lenient_values parts = List.map_filter token_value parts"









section \<open>Rounding to a double: the exponent and evaluation rules\<close>

lemma bit_length_bounds:
  "0 < n \<Longrightarrow> 2 ^ (bit_length n - 1) \<le> n \<and> n < 2 ^ bit_length n"
proof (induction n rule: bit_length.induct)
  case (1 n)
  show ?case
  proof (cases "n div 2 \<le> 0")
    case True
    with 1 have "n = 1" by linarith
    then show ?thesis by (simp add: bit_length.simps[of 1] bit_length.simps[of 0])
  next
    case False
    with 1 have ih: "2 ^ (bit_length (n div 2) - 1) \<le> n div 2" "n div 2 < 2 ^ bit_length (n div 2)"
      by auto
    have pos: "0 < bit_length (n div 2)" using False by (simp add: bit_length.simps[of "n div 2"])
    have eq: "bit_length n = Suc (bit_length (n div 2))" using 1 by (simp add: bit_length.simps[of n])
    have "2 * 2 ^ (bit_length (n div 2) - 1) \<le> n" using ih(1) by linarith
    moreover have "(2::int) * 2 ^ (bit_length (n div 2) - 1) = 2 ^ bit_length (n div 2)"
      using pos by (cases "bit_length (n div 2)") auto
    moreover have "n < 2 * 2 ^ bit_length (n div 2)" using ih(2) by linarith
    ultimately show ?thesis by (simp add: eq)
  qed
qed


lemma powi2_mono: "a \<le> b \<Longrightarrow> power_int (2::rat) a \<le> power_int 2 b"
  by (rule power_int_increasing) auto

lemma powi2_pos: "0 < power_int (2::rat) a"
  by (rule zero_less_power_int) simp

lemma ilog2_bounds:
  assumes "0 < x"
  shows "power_int 2 (ilog2 x) \<le> x \<and> x < power_int 2 (ilog2 x + 1)"
proof -
  obtain p q where pq: "quotient_of x = (p, q)" by (cases "quotient_of x")
  have q: "0 < q" using pq quotient_of_denom_pos by blast
  have x: "x = of_int p / of_int q" using pq quotient_of_div by blast
  have p: "0 < p" using assms q x by (simp add: zero_less_divide_iff)
  define bp where "bp = bit_length p"
  define bq where "bq = bit_length q"
  from bit_length_bounds[OF p] have p1: "2 ^ (bp - 1) \<le> p" and p2: "p < 2 ^ bp" by (auto simp: bp_def)
  from bit_length_bounds[OF q] have q1: "2 ^ (bq - 1) \<le> q" and q2: "q < 2 ^ bq" by (auto simp: bq_def)
  have bp0: "0 < bp" using p2 p by (cases bp) auto
  have bq0: "0 < bq" using q2 q by (cases bq) auto
  have P1: "(2::rat) ^ (bp - 1) \<le> of_int p" using p1 by (metis of_int_le_iff of_int_numeral of_int_power)
  have P2: "of_int p < (2::rat) ^ bp" using p2 by (metis of_int_less_iff of_int_numeral of_int_power)
  have Q1: "(2::rat) ^ (bq - 1) \<le> of_int q" using q1 by (metis of_int_le_iff of_int_numeral of_int_power)
  have Q2: "of_int q < (2::rat) ^ bq" using q2 by (metis of_int_less_iff of_int_numeral of_int_power)
  have qpos: "(0::rat) < of_int q" using q by simp
  define d where "d = int bp - int bq"
  have up: "x < power_int 2 (d + 1)"
  proof -
    have "of_int p < (2::rat) ^ bp" by (rule P2)
    also have "(2::rat) ^ bp = power_int 2 (d + 1) * 2 ^ (bq - 1)"
    proof -
      have "power_int (2::rat) (d + 1) * 2 ^ (bq - 1) = power_int 2 (d + 1) * power_int 2 (int (bq - 1))"
        by simp
      also have "\<dots> = power_int 2 (d + 1 + int (bq - 1))" by (simp add: power_int_add)
      also have "d + 1 + int (bq - 1) = int bp" using bq0 by (simp add: d_def)
      finally show ?thesis by simp
    qed
    also have "\<dots> \<le> power_int 2 (d + 1) * of_int q"
      using Q1 powi2_pos[of "d + 1"] by (simp add: mult_left_mono)
    finally show ?thesis using qpos by (simp add: x pos_divide_less_eq)
  qed
  have lo: "power_int 2 (d - 1) < x"
  proof -
    have "power_int (2::rat) (d - 1) * of_int q < power_int 2 (d - 1) * 2 ^ bq"
      using Q2 powi2_pos[of "d - 1"] by (simp add: mult_strict_left_mono)
    also have "\<dots> = 2 ^ (bp - 1)"
    proof -
      have "power_int (2::rat) (d - 1) * 2 ^ bq = power_int 2 (d - 1) * power_int 2 (int bq)"
        by simp
      also have "\<dots> = power_int 2 (d - 1 + int bq)" by (simp add: power_int_add)
      also have "d - 1 + int bq = int (bp - 1)" using bp0 by (simp add: d_def)
      finally show ?thesis by simp
    qed
    also have "\<dots> \<le> of_int p" by (rule P1)
    finally show ?thesis using qpos by (simp add: x pos_less_divide_eq)
  qed
  have il: "ilog2 x = (if power_int 2 d \<le> x then d else d - 1)"
    by (simp add: ilog2_def pq d_def bp_def bq_def)
  show ?thesis
  proof (cases "power_int 2 d \<le> x")
    case True
    then show ?thesis using up il by simp
  next
    case False
    then show ?thesis using lo il by simp
  qed
qed

lemma ilog2_unique:
  assumes "0 < x" "power_int 2 e \<le> x" "x < power_int 2 (e + 1)"
  shows "ilog2 x = e"
proof -
  from ilog2_bounds[OF assms(1)] have a: "power_int 2 (ilog2 x) \<le> x" and b: "x < power_int 2 (ilog2 x + 1)"
    by auto
  have "\<not> ilog2 x + 1 \<le> e"
  proof
    assume "ilog2 x + 1 \<le> e"
    then have "power_int (2::rat) (ilog2 x + 1) \<le> power_int 2 e" by (rule powi2_mono)
    then show False using b assms(2) by linarith
  qed
  moreover have "\<not> e + 1 \<le> ilog2 x"
  proof
    assume "e + 1 \<le> ilog2 x"
    then have "power_int (2::rat) (e + 1) \<le> power_int 2 (ilog2 x)" by (rule powi2_mono)
    then show False using a assms(3) by linarith
  qed
  ultimately show ?thesis by linarith
qed

lemma round_half_even_near:
  assumes "of_int n - 1 / 2 < q" "q < of_int n + 1 / 2"
  shows "round_half_even q = n"
proof -
  have "\<lfloor>q\<rfloor> = n \<or> \<lfloor>q\<rfloor> = n - 1" using assms by linarith
  then show ?thesis
  proof
    assume f: "\<lfloor>q\<rfloor> = n"
    then have "q - of_int n < 1 / 2" using assms by linarith
    then show ?thesis using f by (simp add: round_half_even_def)
  next
    assume f: "\<lfloor>q\<rfloor> = n - 1"
    then have "1 / 2 < q - of_int (n - 1)" using assms by simp
    then show ?thesis using f by (simp add: round_half_even_def Let_def)
  qed
qed


text \<open>
  How a positive value in the normal range rounds, given its exponent \<open>e\<close>
  and the integer \<open>n\<close> nearest to its scaled significand.
\<close>

lemma round_to_double_pos:
  assumes "0 < x" "power_int 2 e \<le> x" "x < power_int 2 (e + 1)"
    and "- 1022 \<le> e"
    and "of_int n - 1 / 2 < x / power_int 2 (e - 52)" "x / power_int 2 (e - 52) < of_int n + 1 / 2"
    and "(of_int n :: rat) * power_int 2 (e - 52) < power_int 2 1024"
  shows "round_to_double x = Fin (of_int n * power_int 2 (e - 52))"
proof -
  have e: "ilog2 x = e" using assms(1-3) by (rule ilog2_unique)
  have g: "max (e - 52) (- 1074) = e - 52" using assms(4) by simp
  have r: "round_half_even (x / power_int 2 (e - 52)) = n" using assms(5,6) by (rule round_half_even_near)
  have nov: "\<not> power_int (2::rat) 1024 \<le> of_int n * power_int 2 (e - 52)"
    using assms(7) by (simp only: not_le)
  have x0: "x \<noteq> 0" "\<bar>x\<bar> = x" using assms(1) by auto
  show ?thesis
    unfolding round_to_double_def Let_def x0(2) e g r
    using x0(1) nov assms(1) by (simp only: if_False if_True)
qed

lemma round_to_double_minus: "round_to_double (- x) = fneg (round_to_double x)"
proof (cases "x = 0")
  case True
  then show ?thesis by (simp add: round_to_double_def)
next
  case False
  then show ?thesis
    by (cases "0 < x") (auto simp: round_to_double_def Let_def)
qed

lemma round_to_double_int_pos:
  assumes "0 < n" "n < 2 ^ 53"
  shows "round_to_double (of_int n) = Fin (of_int n)"
proof -
  let ?x = "of_int n :: rat"
  have x0: "0 < ?x" using assms(1) by simp
  define e where "e = ilog2 ?x"
  from ilog2_bounds[OF x0] have lo: "power_int 2 e \<le> ?x" and hi: "?x < power_int 2 (e + 1)"
    by (auto simp: e_def)
  have e0: "0 \<le> e"
  proof (rule ccontr)
    assume "\<not> 0 \<le> e"
    then have "e + 1 \<le> 0" by simp
    then have "power_int (2::rat) (e + 1) \<le> power_int 2 0" by (rule powi2_mono)
    moreover have "(1::rat) \<le> ?x" using assms(1) by simp
    ultimately show False using hi by simp
  qed
  have e52: "e \<le> 52"
  proof (rule ccontr)
    assume "\<not> e \<le> 52"
    then have "53 \<le> e" by simp
    then have "power_int (2::rat) 53 \<le> power_int 2 e" by (rule powi2_mono)
    moreover have "?x < 2 ^ 53" using assms(2) by (metis of_int_less_iff of_int_numeral of_int_power)
    ultimately show False using lo by simp
  qed
  define m where "m = n * 2 ^ nat (52 - e)"
  have sc: "?x / power_int 2 (e - 52) = of_int m"
  proof -
    have "power_int (2::rat) (e - 52) = inverse (power_int 2 (52 - e))"
      by (metis minus_diff_eq power_int_minus)
    moreover have "power_int (2::rat) (52 - e) = 2 ^ nat (52 - e)"
      using e52 by (simp add: power_int_def)
    ultimately show ?thesis by (simp add: m_def divide_inverse)
  qed
  have bk: "(of_int m :: rat) * power_int 2 (e - 52) = ?x"
    using sc powi2_pos[of "e - 52"] by (simp add: field_simps)
  have small: "?x < power_int 2 1024"
  proof -
    have "?x < 2 ^ 53" using assms(2) by (metis of_int_less_iff of_int_numeral of_int_power)
    also have "(2::rat) ^ 53 \<le> 2 ^ 1024" by (rule power_increasing) simp_all
    finally show ?thesis by simp
  qed
  have "round_to_double ?x = Fin (of_int m * power_int 2 (e - 52))"
  proof (rule round_to_double_pos[OF x0 lo hi])
    show "- 1022 \<le> e" using e0 by simp
    show "of_int m - 1 / 2 < ?x / power_int 2 (e - 52)" by (simp add: sc)
    show "?x / power_int 2 (e - 52) < of_int m + 1 / 2" by (simp add: sc)
    show "(of_int m :: rat) * power_int 2 (e - 52) < power_int 2 1024"
      using small by (simp only: bk)
  qed
  then show ?thesis by (simp only: bk)
qed

lemma round_to_double_int:
  assumes "\<bar>n\<bar> < 2 ^ 53"
  shows "round_to_double (of_int n) = Fin (of_int n)"
proof -
  consider "n = 0" | "0 < n" | "n < 0" by linarith
  then show ?thesis
  proof cases
    case 1
    then show ?thesis by (simp add: round_to_double_def)
  next
    case 2
    then show ?thesis using assms by (intro round_to_double_int_pos) auto
  next
    case 3
    then have "round_to_double (of_int (- n)) = Fin (of_int (- n))"
      using assms by (intro round_to_double_int_pos) auto
    then have "round_to_double (- of_int n) = Fin (- of_int n)" by simp
    then have "fneg (round_to_double (of_int n)) = Fin (- of_int n)"
      by (simp only: round_to_double_minus)
    then show ?thesis by (cases "round_to_double (of_int n)") auto
  qed
qed

lemma round_to_double_numeral:
  "numeral k < (2::int) ^ 53 \<Longrightarrow> round_to_double (numeral k) = Fin (numeral k)"
  "numeral k < (2::int) ^ 53 \<Longrightarrow> round_to_double (- numeral k) = Fin (- numeral k)"
  using round_to_double_int[of "numeral k"] round_to_double_int[of "- numeral k"] by simp_all

lemmas py_float_eval =
  py_float_def is_digit_def take_sign_def float_strip_def is_float_space_def to_lower_def
  parse_decimal_def parse_exponent_def nat_of_digits_def digit_val_def

lemma float_lit_zero: "float_lit 0 = Fin 0"
  by (simp add: float_lit_def round_to_double_def)

lemma float_lit_milli: "float_lit (1 / 1000) = Fin (1152921504606847 / 1152921504606846976)"
  unfolding float_lit_def
  using round_to_double_pos[of "1 / 1000" "- 10" 4611686018427388]
  by (simp add: power_int_minus)



section \<open>Rounding is monotone and idempotent\<close>






























section \<open>Basic facts about the world and the wrappers\<close>

lemma log_events_Nil: "log_events [] w = w"
  by (simp add: log_events_def)

lemma log_events_Cons: "log_events (ev # evs) w = log_events evs (log_event ev w)"
  by (simp add: log_events_def log_event_def)

lemma log_events_snoc: "log_events (evs @ [ev]) w = log_event ev (log_events evs w)"
  by (simp add: log_events_def log_event_def)

lemma log_events_append: "log_events (xs @ ys) w = log_events ys (log_events xs w)"
  by (simp add: log_events_def)

lemma snd_sa_write: "snd (sa_write t c w) = log_event (Write c) w"
  by (simp add: sa_write_def visa_write_def split: option.splits)

lemma snd_sa_query: "snd (sa_query t c w) = log_event (Query c) w"
  by (simp add: sa_query_def visa_query_def split: sum.splits)

lemma sa_write_cases:
  obtains e where "sa_write t c w = (Inl e, log_event (Write c) w)"
  | "sa_write t c w = (Inr (), log_event (Write c) w)"
proof (cases "fst (sa_write t c w)")
  case (Inl e)
  then have "sa_write t c w = (Inl e, log_event (Write c) w)"
    using snd_sa_write[of t c w] by (cases "sa_write t c w") auto
  then show ?thesis using that by blast
next
  case (Inr u)
  then have "sa_write t c w = (Inr (), log_event (Write c) w)"
    using snd_sa_write[of t c w] by (cases "sa_write t c w") auto
  then show ?thesis using that by blast
qed

lemma sa_query_eq: "sa_query t c w = (fst (sa_query t c w), log_event (Query c) w)"
  using snd_sa_query[of t c w] by (cases "sa_query t c w") auto

lemma write_attempt_Cons_0: "write_attempt t (c # cs) w 0 = fst (sa_write t c w)"
  by (simp add: write_attempt_def log_events_Nil)

lemma write_attempt_Cons_Suc:
  "write_attempt t (c # cs) w (Suc j) = write_attempt t cs (log_event (Write c) w) j"
  by (simp add: write_attempt_def log_events_Cons)

lemma query_attempt_Cons_0: "query_attempt t (c # cs) w 0 = fst (sa_query t c w)"
  by (simp add: query_attempt_def log_events_Nil)

lemma query_attempt_Cons_Suc:
  "query_attempt t (c # cs) w (Suc j) = query_attempt t cs (log_event (Query c) w) j"
  by (simp add: query_attempt_def log_events_Cons)

section \<open>The command variant resolver\<close>

lemma try_write_loop_fail:
  "\<forall>j<length cs. isl (write_attempt t cs w j) \<Longrightarrow>
   try_write_loop t cs le w =
     (if cs = [] then Inl (case le of Some e \<Rightarrow> e | None \<Rightarrow> no_variant)
      else write_attempt t cs w (length cs - 1),
      log_events (map Write cs) w)"
proof (induction cs arbitrary: le w)
  case Nil
  show ?case by (simp add: log_events_Nil)
next
  case (Cons c cs)
  from Cons.prems have h0: "isl (write_attempt t (c # cs) w 0)" by auto
  then obtain e where e: "sa_write t c w = (Inl e, log_event (Write c) w)"
    by (cases rule: sa_write_cases[of t c w]) (auto simp: write_attempt_Cons_0)
  have rest: "\<forall>j<length cs. isl (write_attempt t cs (log_event (Write c) w) j)"
  proof (intro allI impI)
    fix j assume "j < length cs"
    then have "isl (write_attempt t (c # cs) w (Suc j))" using Cons.prems by auto
    then show "isl (write_attempt t cs (log_event (Write c) w) j)"
      by (simp add: write_attempt_Cons_Suc)
  qed
  show ?case
  proof (cases cs)
    case Nil
    then show ?thesis using e
      by (simp add: log_events_Cons log_events_Nil write_attempt_Cons_0)
  next
    case (Cons d ds)
    then have "length cs - 1 = length ds" by simp
    then show ?thesis using e Cons.IH[OF rest, of "Some e"] Cons
      by (simp add: log_events_Cons write_attempt_Cons_Suc)
  qed
qed

lemma try_write_loop_first:
  "k < length cs \<Longrightarrow> \<forall>j<k. isl (write_attempt t cs w j) \<Longrightarrow> \<not> isl (write_attempt t cs w k) \<Longrightarrow>
   try_write_loop t cs le w = (Inr (), log_events (map Write (take (Suc k) cs)) w)"
proof (induction cs arbitrary: le w k)
  case Nil
  then show ?case by simp
next
  case (Cons c cs)
  show ?case
  proof (cases k)
    case 0
    with Cons.prems have "\<not> isl (fst (sa_write t c w))" by (simp add: write_attempt_Cons_0)
    then have "sa_write t c w = (Inr (), log_event (Write c) w)"
      by (cases rule: sa_write_cases[of t c w]) auto
    then show ?thesis using 0 by (simp add: log_events_Cons log_events_Nil)
  next
    case (Suc k')
    from Cons.prems Suc have "isl (write_attempt t (c # cs) w 0)" by auto
    then obtain e where e: "sa_write t c w = (Inl e, log_event (Write c) w)"
      by (cases rule: sa_write_cases[of t c w]) (auto simp: write_attempt_Cons_0)
    have a: "k' < length cs" using Cons.prems Suc by simp
    have b: "\<forall>j<k'. isl (write_attempt t cs (log_event (Write c) w) j)"
    proof (intro allI impI)
      fix j assume "j < k'"
      then have "isl (write_attempt t (c # cs) w (Suc j))" using Cons.prems Suc by auto
      then show "isl (write_attempt t cs (log_event (Write c) w) j)"
        by (simp add: write_attempt_Cons_Suc)
    qed
    have c: "\<not> isl (write_attempt t cs (log_event (Write c) w) k')"
      using Cons.prems Suc by (simp add: write_attempt_Cons_Suc)
    show ?thesis using Cons.IH[OF a b c, of "Some e"] e Suc
      by (simp add: log_events_Cons)
  qed
qed

lemma try_query_loop_fail:
  "\<forall>j<length cs. isl (query_attempt t cs w j) \<Longrightarrow>
   try_query_loop t cs le w =
     (if cs = [] then Inl (case le of Some e \<Rightarrow> e | None \<Rightarrow> no_variant)
      else query_attempt t cs w (length cs - 1),
      log_events (map Query cs) w)"
proof (induction cs arbitrary: le w)
  case Nil
  show ?case by (simp add: log_events_Nil)
next
  case (Cons c cs)
  from Cons.prems have h0: "isl (query_attempt t (c # cs) w 0)" by auto
  then obtain e where e: "sa_query t c w = (Inl e, log_event (Query c) w)"
    using sa_query_eq[of t c w] by (auto simp: query_attempt_Cons_0 isl_def)
  have rest: "\<forall>j<length cs. isl (query_attempt t cs (log_event (Query c) w) j)"
  proof (intro allI impI)
    fix j assume "j < length cs"
    then have "isl (query_attempt t (c # cs) w (Suc j))" using Cons.prems by auto
    then show "isl (query_attempt t cs (log_event (Query c) w) j)"
      by (simp add: query_attempt_Cons_Suc)
  qed
  show ?case
  proof (cases cs)
    case Nil
    then show ?thesis using e
      by (simp add: log_events_Cons log_events_Nil query_attempt_Cons_0)
  next
    case (Cons d ds)
    then have "length cs - 1 = length ds" by simp
    then show ?thesis using e Cons.IH[OF rest, of "Some e"] Cons
      by (simp add: log_events_Cons query_attempt_Cons_Suc)
  qed
qed

lemma try_query_loop_first:
  "k < length cs \<Longrightarrow> \<forall>j<k. isl (query_attempt t cs w j) \<Longrightarrow> \<not> isl (query_attempt t cs w k) \<Longrightarrow>
   try_query_loop t cs le w =
     (query_attempt t cs w k, log_events (map Query (take (Suc k) cs)) w)"
proof (induction cs arbitrary: le w k)
  case Nil
  then show ?case by simp
next
  case (Cons c cs)
  show ?case
  proof (cases k)
    case 0
    with Cons.prems have "\<not> isl (fst (sa_query t c w))" by (simp add: query_attempt_Cons_0)
    then obtain r where "sa_query t c w = (Inr r, log_event (Query c) w)"
      using sa_query_eq[of t c w] by (cases "fst (sa_query t c w)") auto
    then show ?thesis using 0
      by (simp add: log_events_Cons log_events_Nil query_attempt_Cons_0)
  next
    case (Suc k')
    from Cons.prems Suc have "isl (query_attempt t (c # cs) w 0)" by auto
    then obtain e where e: "sa_query t c w = (Inl e, log_event (Query c) w)"
      using sa_query_eq[of t c w] by (auto simp: query_attempt_Cons_0 isl_def)
    have a: "k' < length cs" using Cons.prems Suc by simp
    have b: "\<forall>j<k'. isl (query_attempt t cs (log_event (Query c) w) j)"
    proof (intro allI impI)
      fix j assume "j < k'"
      then have "isl (query_attempt t (c # cs) w (Suc j))" using Cons.prems Suc by auto
      then show "isl (query_attempt t cs (log_event (Query c) w) j)"
        by (simp add: query_attempt_Cons_Suc)
    qed
    have c: "\<not> isl (query_attempt t cs (log_event (Query c) w) k')"
      using Cons.prems Suc by (simp add: query_attempt_Cons_Suc)
    show ?thesis using Cons.IH[OF a b c, of "Some e"] e Suc
      by (simp add: log_events_Cons query_attempt_Cons_Suc)
  qed
qed

text \<open>
  Claim C2. The candidates are attempted in list order. If candidate \<open>k\<close> is
  the first whose write (query) succeeds, the call returns its result and the
  history grew by exactly the attempts on candidates \<open>0..k\<close>: nothing after
  \<open>k\<close> was attempted. If every candidate of a non-empty list fails, all were
  attempted in order and the call raises exactly what the last attempt raised.
  (For an empty list nothing is attempted and \<open>RuntimeError("No SCPI variant
  worked")\<close> is raised.)
\<close>

theorem resolver_first_success_or_last_error:
  "(k < length cmds \<and> (\<forall>j<k. isl (write_attempt t cmds w j)) \<and> \<not> isl (write_attempt t cmds w k)
      \<longrightarrow> sa_try_write_any t cmds w = (Inr (), log_events (map Write (take (Suc k) cmds)) w))
   \<and> (cmds \<noteq> [] \<and> (\<forall>j<length cmds. isl (write_attempt t cmds w j))
      \<longrightarrow> isl (write_attempt t cmds w (length cmds - 1))
          \<and> sa_try_write_any t cmds w =
              (write_attempt t cmds w (length cmds - 1), log_events (map Write cmds) w))
   \<and> (k < length cmds \<and> (\<forall>j<k. isl (query_attempt t cmds w j)) \<and> \<not> isl (query_attempt t cmds w k)
      \<longrightarrow> sa_try_query_any t cmds w =
            (query_attempt t cmds w k, log_events (map Query (take (Suc k) cmds)) w))
   \<and> (cmds \<noteq> [] \<and> (\<forall>j<length cmds. isl (query_attempt t cmds w j))
      \<longrightarrow> isl (query_attempt t cmds w (length cmds - 1))
          \<and> sa_try_query_any t cmds w =
              (query_attempt t cmds w (length cmds - 1), log_events (map Query cmds) w))
   \<and> sa_try_write_any t [] w = (Inl no_variant, w)
   \<and> sa_try_query_any t [] w = (Inl no_variant, w)"
proof (intro conjI impI)
  assume "k < length cmds \<and> (\<forall>j<k. isl (write_attempt t cmds w j)) \<and> \<not> isl (write_attempt t cmds w k)"
  then show "sa_try_write_any t cmds w = (Inr (), log_events (map Write (take (Suc k) cmds)) w)"
    unfolding sa_try_write_any_def using try_write_loop_first by blast
next
  assume a: "cmds \<noteq> [] \<and> (\<forall>j<length cmds. isl (write_attempt t cmds w j))"
  then show "isl (write_attempt t cmds w (length cmds - 1))" by simp
  from a show "sa_try_write_any t cmds w =
      (write_attempt t cmds w (length cmds - 1), log_events (map Write cmds) w)"
    unfolding sa_try_write_any_def using try_write_loop_fail[of cmds t w None] by simp
next
  assume "k < length cmds \<and> (\<forall>j<k. isl (query_attempt t cmds w j)) \<and> \<not> isl (query_attempt t cmds w k)"
  then show "sa_try_query_any t cmds w =
      (query_attempt t cmds w k, log_events (map Query (take (Suc k) cmds)) w)"
    unfolding sa_try_query_any_def using try_query_loop_first by blast
next
  assume a: "cmds \<noteq> [] \<and> (\<forall>j<length cmds. isl (query_attempt t cmds w j))"
  then show "isl (query_attempt t cmds w (length cmds - 1))" by simp
  from a show "sa_try_query_any t cmds w =
      (query_attempt t cmds w (length cmds - 1), log_events (map Query cmds) w)"
    unfolding sa_try_query_any_def using try_query_loop_fail[of cmds t w None] by simp
next
  show "sa_try_write_any t [] w = (Inl no_variant, w)" by (simp add: sa_try_write_any_def)
  show "sa_try_query_any t [] w = (Inl no_variant, w)" by (simp add: sa_try_query_any_def)
qed

lemma attempts_only_C_works:
  "write_attempt (table_transport only_C_works) [''A'', ''B'', ''C''] w0 0
     = Inl (RuntimeError (''VISA write error en '' @ quote ''A'' @ '': rejected A''))"
  "write_attempt (table_transport only_C_works) [''A'', ''B'', ''C''] w0 (Suc 0)
     = Inl (RuntimeError (''VISA write error en '' @ quote ''B'' @ '': rejected B''))"
  "write_attempt (table_transport only_C_works) [''A'', ''B'', ''C''] w0 (Suc (Suc 0)) = Inr ()"
  "query_attempt (table_transport only_C_works) [''A'', ''B'', ''C''] w0 0
     = Inl (RuntimeError (''VISA query error en '' @ quote ''A'' @ '': rejected A''))"
  "query_attempt (table_transport only_C_works) [''A'', ''B'', ''C''] w0 (Suc 0)
     = Inl (RuntimeError (''VISA query error en '' @ quote ''B'' @ '': rejected B''))"
  "query_attempt (table_transport only_C_works) [''A'', ''B'', ''C''] w0 (Suc (Suc 0)) = Inr ''ok''"
  "write_attempt (table_transport only_C_works) [''A'', ''B''] w0 0
     = Inl (RuntimeError (''VISA write error en '' @ quote ''A'' @ '': rejected A''))"
  "write_attempt (table_transport only_C_works) [''A'', ''B''] w0 (Suc 0)
     = Inl (RuntimeError (''VISA write error en '' @ quote ''B'' @ '': rejected B''))"
  "query_attempt (table_transport only_C_works) [''A'', ''B''] w0 0
     = Inl (RuntimeError (''VISA query error en '' @ quote ''A'' @ '': rejected A''))"
  "query_attempt (table_transport only_C_works) [''A'', ''B''] w0 (Suc 0)
     = Inl (RuntimeError (''VISA query error en '' @ quote ''B'' @ '': rejected B''))"
  by (simp_all add: write_attempt_def query_attempt_def sa_write_def sa_query_def visa_write_def
      visa_query_def table_transport_def only_C_works_def wrap_write_error_def
      wrap_query_error_def log_events_def log_event_def w0_def)

theorem resolver_first_success_or_last_error_witness:
  "sa_try_write_any (table_transport only_C_works) [''A'', ''B'', ''C''] w0
     = (Inr (), \<lparr>history = [Write ''A'', Write ''B'', Write ''C''], stdout = []\<rparr>)
   \<and> sa_try_query_any (table_transport only_C_works) [''A'', ''B'', ''C''] w0
     = (Inr ''ok'', \<lparr>history = [Query ''A'', Query ''B'', Query ''C''], stdout = []\<rparr>)
   \<and> sa_try_write_any (table_transport only_C_works) [''A'', ''B''] w0
     = (Inl (RuntimeError (''VISA write error en '' @ quote ''B'' @ '': rejected B'')),
        \<lparr>history = [Write ''A'', Write ''B''], stdout = []\<rparr>)
   \<and> sa_try_query_any (table_transport only_C_works) [''A'', ''B''] w0
     = (Inl (RuntimeError (''VISA query error en '' @ quote ''B'' @ '': rejected B'')),
        \<lparr>history = [Query ''A'', Query ''B''], stdout = []\<rparr>)"
proof -
  let ?t = "table_transport only_C_works"
  note two = All_less_Suc
  have l3: "length [''A'', ''B'', ''C''] = 3" "length [''A'', ''B''] = 2" by simp_all
  note T3 = resolver_first_success_or_last_error[of "Suc (Suc 0)" "[''A'', ''B'', ''C'']" ?t w0]
  note T2 = resolver_first_success_or_last_error[of 0 "[''A'', ''B'']" ?t w0]
  have w3: "sa_try_write_any ?t [''A'', ''B'', ''C''] w0
      = (Inr (), log_events (map Write (take (Suc (Suc (Suc 0))) [''A'', ''B'', ''C''])) w0)"
    using T3 by (simp add: two attempts_only_C_works)
  have q3: "sa_try_query_any ?t [''A'', ''B'', ''C''] w0
      = (query_attempt ?t [''A'', ''B'', ''C''] w0 (Suc (Suc 0)),
         log_events (map Query (take (Suc (Suc (Suc 0))) [''A'', ''B'', ''C''])) w0)"
    using T3 by (simp add: two attempts_only_C_works)
  have w2: "sa_try_write_any ?t [''A'', ''B''] w0
      = (write_attempt ?t [''A'', ''B''] w0 (length [''A'', ''B''] - 1),
         log_events (map Write [''A'', ''B'']) w0)"
    using T2 by (simp add: two attempts_only_C_works)
  have q2: "sa_try_query_any ?t [''A'', ''B''] w0
      = (query_attempt ?t [''A'', ''B''] w0 (length [''A'', ''B''] - 1),
         log_events (map Query [''A'', ''B'']) w0)"
    using T2 by (simp add: two attempts_only_C_works)
  show ?thesis
    unfolding w3 q3 w2 q2
    apply (simp add: attempts_only_C_works)
    apply (simp add: log_events_def w0_def)
    done
qed

section \<open>Draining the error queue\<close>

lemma snd_vna_query: "snd (vna_query t c w) = log_event (Query c) w"
  by (simp add: vna_query_def visa_query_def split: sum.splits)

lemma error_reply_0: "error_reply q w 0 = fst (q ''SYST:ERR?'' w)"
  by (simp add: error_reply_def log_events_Nil)

lemma error_reply_Suc:
  "error_reply q w (Suc j) = error_reply q (log_event (Query ''SYST:ERR?'') w) j"
  by (simp add: error_reply_def log_events_Cons)

lemma drain_loop_reads:
  assumes q_log: "\<And>c w. snd (q c w) = log_event (Query c) w"
  shows "m \<le> n \<Longrightarrow> (\<forall>j<m. error_reply q w j = Inr (rs j)) \<Longrightarrow>
     (\<forall>j. Suc j < m \<longrightarrow> \<not> startswith (rs j) ''0'') \<Longrightarrow>
     (m = n \<or> (0 < m \<and> startswith (rs (m - 1)) ''0'')) \<Longrightarrow>
     drain_loop q n errs w =
       (Inr (errs @ map (\<lambda>j. strip (rs j)) [0..<m]),
        log_events (replicate m (Query ''SYST:ERR?'')) w)"
proof (induction n arbitrary: m w errs rs)
  case 0
  then show ?case by (simp add: log_events_Nil)
next
  case (Suc n)
  from Suc.prems(1,4) obtain m' where m: "m = Suc m'" by (cases m) auto
  have r0: "fst (q ''SYST:ERR?'' w) = Inr (rs 0)"
    using Suc.prems(2) m by (auto simp: error_reply_0[symmetric])
  then have q0: "q ''SYST:ERR?'' w = (Inr (rs 0), log_event (Query ''SYST:ERR?'') w)"
    using q_log[of "''SYST:ERR?''" w] by (cases "q ''SYST:ERR?'' w") auto
  show ?case
  proof (cases "startswith (rs 0) ''0''")
    case True
    have "m' = 0"
    proof (rule ccontr)
      assume "m' \<noteq> 0"
      then have "Suc 0 < m" using m by simp
      then show False using Suc.prems(3) True by blast
    qed
    then show ?thesis using q0 True m by (simp add: log_events_Cons log_events_Nil)
  next
    case False
    let ?w = "log_event (Query ''SYST:ERR?'') w"
    have a: "m' \<le> n" using Suc.prems(1) m by simp
    have b: "\<forall>j<m'. error_reply q ?w j = Inr (rs (Suc j))"
      using Suc.prems(2) m by (auto simp: error_reply_Suc[symmetric])
    have c: "\<forall>j. Suc j < m' \<longrightarrow> \<not> startswith (rs (Suc j)) ''0''"
      using Suc.prems(3) m by auto
    have d: "m' = n \<or> (0 < m' \<and> startswith (rs (Suc (m' - 1))) ''0'')"
    proof (cases "m = Suc n")
      case True
      then show ?thesis using m by simp
    next
      case False
      with Suc.prems(4) have s: "startswith (rs (m - 1)) ''0''" by auto
      have "m' \<noteq> 0" using s m \<open>\<not> startswith (rs 0) ''0''\<close> by (cases m') auto
      then show ?thesis using s m by simp
    qed
    have "drain_loop q n (errs @ [strip (rs 0)]) ?w =
       (Inr ((errs @ [strip (rs 0)]) @ map (\<lambda>j. strip (rs (Suc j))) [0..<m']),
        log_events (replicate m' (Query ''SYST:ERR?'')) ?w)"
      using Suc.IH[of m' ?w "\<lambda>j. rs (Suc j)" "errs @ [strip (rs 0)]", OF a b c d] .
    then show ?thesis using q0 False m
      by (simp add: log_events_Cons map_upt_Suc del: upt_Suc)
  qed
qed

lemma drain_loop_bound:
  assumes q_log: "\<And>c w. snd (q c w) = log_event (Query c) w"
  shows "\<exists>m\<le>n. snd (drain_loop q n errs w) = log_events (replicate m (Query ''SYST:ERR?'')) w"
proof (induction n arbitrary: w errs)
  case 0
  show ?case by (simp add: log_events_Nil)
next
  case (Suc n)
  let ?w = "log_event (Query ''SYST:ERR?'') w"
  have one: "?w = log_events (replicate (Suc 0) (Query ''SYST:ERR?'')) w"
    by (simp add: log_events_Cons log_events_Nil)
  have stop: "snd (drain_loop q (Suc n) errs w) = ?w \<Longrightarrow> ?case"
  proof -
    assume "snd (drain_loop q (Suc n) errs w) = ?w"
    then have "snd (drain_loop q (Suc n) errs w) = log_events (replicate (Suc 0) (Query ''SYST:ERR?'')) w"
      using one by simp
    moreover have "Suc 0 \<le> Suc n" by simp
    ultimately show ?case by blast
  qed
  show ?case
  proof (cases "fst (q ''SYST:ERR?'' w)")
    case (Inl e)
    then have q0: "q ''SYST:ERR?'' w = (Inl e, ?w)"
      using q_log[of "''SYST:ERR?''" w] by (cases "q ''SYST:ERR?'' w") auto
    show ?thesis by (rule stop) (simp add: q0)
  next
    case (Inr err)
    then have q0: "q ''SYST:ERR?'' w = (Inr err, ?w)"
      using q_log[of "''SYST:ERR?''" w] by (cases "q ''SYST:ERR?'' w") auto
    show ?thesis
    proof (cases "startswith err ''0''")
      case True
      show ?thesis by (rule stop) (simp add: q0 True)
    next
      case False
      have eq: "drain_loop q (Suc n) errs w = drain_loop q n (errs @ [strip err]) ?w"
        by (simp add: q0 False)
      from Suc.IH[of "errs @ [strip err]" ?w] obtain m where
        m: "m \<le> n" "snd (drain_loop q n (errs @ [strip err]) ?w)
                = log_events (replicate m (Query ''SYST:ERR?'')) ?w" by blast
      have "snd (drain_loop q (Suc n) errs w) = log_events (replicate (Suc m) (Query ''SYST:ERR?'')) w"
        using m(2) eq by (simp add: log_events_Cons)
      moreover have "Suc m \<le> Suc n" using m(1) by simp
      ultimately show ?thesis by blast
    qed
  qed
qed


text \<open>
  Claim C3. Let \<open>rs j\<close> be the reply to the \<open>j\<close>-th read of the error
  queue. If reply \<open>k\<close> (with \<open>k\<close> below the cap) is the first whose text
  starts with "0", exactly \<open>k + 1\<close> reads are made and the replies
  \<open>0..k\<close> are returned, in order, each stripped of surrounding whitespace.
  If none of the first \<open>max_reads\<close> replies starts with "0", exactly
  \<open>max_reads\<close> reads are made and those replies are returned. Whatever the
  device does, the number of reads never exceeds the cap. \<open>VNA.check_errors\<close>
  does the same with the cap 20.
\<close>

theorem error_queue_drain_bounded:
  "(k < nat max_reads \<and> (\<forall>j<Suc k. error_reply (sa_query t) w j = Inr (rs j))
      \<and> (\<forall>j<k. \<not> startswith (rs j) ''0'') \<and> startswith (rs k) ''0''
    \<longrightarrow> sa_check_errors t max_reads w =
          (Inr (map (\<lambda>j. strip (rs j)) [0..<Suc k]),
           log_events (replicate (Suc k) (Query ''SYST:ERR?'')) w))
   \<and> ((\<forall>j<nat max_reads. error_reply (sa_query t) w j = Inr (rs j) \<and> \<not> startswith (rs j) ''0'')
    \<longrightarrow> sa_check_errors t max_reads w =
          (Inr (map (\<lambda>j. strip (rs j)) [0..<nat max_reads]),
           log_events (replicate (nat max_reads) (Query ''SYST:ERR?'')) w))
   \<and> (\<exists>m\<le>nat max_reads.
         snd (sa_check_errors t max_reads w) = log_events (replicate m (Query ''SYST:ERR?'')) w)
   \<and> (k < 20 \<and> (\<forall>j<Suc k. error_reply (vna_query t) w j = Inr (rs j))
      \<and> (\<forall>j<k. \<not> startswith (rs j) ''0'') \<and> startswith (rs k) ''0''
    \<longrightarrow> vna_check_errors t w =
          (Inr (map (\<lambda>j. strip (rs j)) [0..<Suc k]),
           log_events (replicate (Suc k) (Query ''SYST:ERR?'')) w))
   \<and> ((\<forall>j<20. error_reply (vna_query t) w j = Inr (rs j) \<and> \<not> startswith (rs j) ''0'')
    \<longrightarrow> vna_check_errors t w =
          (Inr (map (\<lambda>j. strip (rs j)) [0..<20]),
           log_events (replicate 20 (Query ''SYST:ERR?'')) w))
   \<and> (\<exists>m\<le>20. snd (vna_check_errors t w) = log_events (replicate m (Query ''SYST:ERR?'')) w)"
proof (intro conjI impI)
  assume a: "k < nat max_reads \<and> (\<forall>j<Suc k. error_reply (sa_query t) w j = Inr (rs j))
      \<and> (\<forall>j<k. \<not> startswith (rs j) ''0'') \<and> startswith (rs k) ''0''"
  have "drain_loop (sa_query t) (nat max_reads) [] w =
      (Inr ([] @ map (\<lambda>j. strip (rs j)) [0..<Suc k]),
       log_events (replicate (Suc k) (Query ''SYST:ERR?'')) w)"
    by (rule drain_loop_reads[OF snd_sa_query]) (use a in auto)
  then show "sa_check_errors t max_reads w =
      (Inr (map (\<lambda>j. strip (rs j)) [0..<Suc k]),
       log_events (replicate (Suc k) (Query ''SYST:ERR?'')) w)"
    by (simp add: sa_check_errors_def del: upt_Suc)
next
  assume a: "\<forall>j<nat max_reads. error_reply (sa_query t) w j = Inr (rs j) \<and> \<not> startswith (rs j) ''0''"
  have "drain_loop (sa_query t) (nat max_reads) [] w =
      (Inr ([] @ map (\<lambda>j. strip (rs j)) [0..<nat max_reads]),
       log_events (replicate (nat max_reads) (Query ''SYST:ERR?'')) w)"
    by (rule drain_loop_reads[OF snd_sa_query]) (use a in auto)
  then show "sa_check_errors t max_reads w =
      (Inr (map (\<lambda>j. strip (rs j)) [0..<nat max_reads]),
       log_events (replicate (nat max_reads) (Query ''SYST:ERR?'')) w)"
    by (simp add: sa_check_errors_def)
next
  show "\<exists>m\<le>nat max_reads.
      snd (sa_check_errors t max_reads w) = log_events (replicate m (Query ''SYST:ERR?'')) w"
    unfolding sa_check_errors_def by (rule drain_loop_bound[OF snd_sa_query])
next
  assume a: "k < 20 \<and> (\<forall>j<Suc k. error_reply (vna_query t) w j = Inr (rs j))
      \<and> (\<forall>j<k. \<not> startswith (rs j) ''0'') \<and> startswith (rs k) ''0''"
  have "drain_loop (vna_query t) 20 [] w =
      (Inr ([] @ map (\<lambda>j. strip (rs j)) [0..<Suc k]),
       log_events (replicate (Suc k) (Query ''SYST:ERR?'')) w)"
    by (rule drain_loop_reads[OF snd_vna_query]) (use a in auto)
  then show "vna_check_errors t w =
      (Inr (map (\<lambda>j. strip (rs j)) [0..<Suc k]),
       log_events (replicate (Suc k) (Query ''SYST:ERR?'')) w)"
    by (simp add: vna_check_errors_def del: upt_Suc)
next
  assume a: "\<forall>j<20. error_reply (vna_query t) w j = Inr (rs j) \<and> \<not> startswith (rs j) ''0''"
  have "drain_loop (vna_query t) 20 [] w =
      (Inr ([] @ map (\<lambda>j. strip (rs j)) [0..<20]),
       log_events (replicate 20 (Query ''SYST:ERR?'')) w)"
    by (rule drain_loop_reads[OF snd_vna_query]) (use a in auto)
  then show "vna_check_errors t w =
      (Inr (map (\<lambda>j. strip (rs j)) [0..<20]),
       log_events (replicate 20 (Query ''SYST:ERR?'')) w)"
    by (simp add: vna_check_errors_def del: upt_Suc upt_rec_numeral)
next
  show "\<exists>m\<le>20. snd (vna_check_errors t w) = log_events (replicate m (Query ''SYST:ERR?'')) w"
    unfolding vna_check_errors_def by (rule drain_loop_bound[OF snd_vna_query])
qed

lemma strip_examples:
  "strip ''1,err'' = ''1,err''" "strip ''2,err'' = ''2,err''" "strip ''0,No error'' = ''0,No error''"
  "strip ''-113,Undefined header'' = ''-113,Undefined header''"
  by (simp_all add: strip_def is_space_def)

lemma error_reply_table:
  "f ''SYST:ERR?'' = Inr r \<Longrightarrow> error_reply (sa_query (table_transport f)) w j = Inr r"
  "f ''SYST:ERR?'' = Inr r \<Longrightarrow> error_reply (vna_query (table_transport f)) w j = Inr r"
  by (simp_all add: error_reply_def sa_query_def vna_query_def visa_query_def table_transport_def)

lemma error_reply_replay:
  "j < length rs \<Longrightarrow> rs ! j = Inr r \<Longrightarrow> error_reply (sa_query (replay_transport rs)) w0 j = Inr r"
  "j < length rs \<Longrightarrow> rs ! j = Inr r \<Longrightarrow> error_reply (vna_query (replay_transport rs)) w0 j = Inr r"
  by (simp_all add: error_reply_def sa_query_def vna_query_def visa_query_def replay_transport_def
      log_events_def w0_def)

theorem error_queue_drain_bounded_witness:
  "sa_check_errors (replay_transport drain_script) 20 w0
     = (Inr [''1,err'', ''2,err'', ''0,No error''],
        log_events (replicate 3 (Query ''SYST:ERR?'')) w0)
   \<and> sa_check_errors (table_transport always_error) 20 w0
     = (Inr (replicate 20 ''-113,Undefined header''),
        log_events (replicate 20 (Query ''SYST:ERR?'')) w0)
   \<and> vna_check_errors (replay_transport drain_script) w0
     = (Inr [''1,err'', ''2,err'', ''0,No error''],
        log_events (replicate 3 (Query ''SYST:ERR?'')) w0)
   \<and> vna_check_errors (table_transport always_error) w0
     = (Inr (replicate 20 ''-113,Undefined header''),
        log_events (replicate 20 (Query ''SYST:ERR?'')) w0)"
proof -
  let ?rs = "\<lambda>j. [''1,err'', ''2,err'', ''0,No error''] ! j"
  let ?cs = "\<lambda>j::nat. ''-113,Undefined header''"
  note T1 = error_queue_drain_bounded[of "Suc (Suc 0)" 20 "replay_transport drain_script" w0 ?rs]
  note T2 = error_queue_drain_bounded[of 0 20 "table_transport always_error" w0 ?cs]
  have h1: "\<forall>j<Suc (Suc (Suc 0)). error_reply (sa_query (replay_transport drain_script)) w0 j = Inr (?rs j)"
    by (simp add: All_less_Suc error_reply_replay drain_script_def)
  have h1v: "\<forall>j<Suc (Suc (Suc 0)). error_reply (vna_query (replay_transport drain_script)) w0 j = Inr (?rs j)"
    by (simp add: All_less_Suc error_reply_replay drain_script_def)
  have h2: "\<forall>j<Suc (Suc 0). \<not> startswith (?rs j) ''0''"
    by (simp add: All_less_Suc startswith_def)
  have h3: "startswith (?rs (Suc (Suc 0))) ''0''"
    by (simp add: startswith_def)
  have h4: "\<forall>j<nat 20. error_reply (sa_query (table_transport always_error)) w0 j = Inr (?cs j)
       \<and> \<not> startswith (?cs j) ''0''"
    by (simp add: error_reply_table always_error_def startswith_def)
  have h4v: "\<forall>j<20. error_reply (vna_query (table_transport always_error)) w0 j = Inr (?cs j)
       \<and> \<not> startswith (?cs j) ''0''"
    by (simp add: error_reply_table always_error_def startswith_def)
  have k: "Suc (Suc 0) < nat 20" "Suc (Suc 0) < 20" by simp_all
  have m3: "map (\<lambda>j. strip (?rs j)) [0..<Suc (Suc (Suc 0))] = [''1,err'', ''2,err'', ''0,No error'']"
    by (simp add: strip_examples)
  have m20: "map (\<lambda>j. strip (?cs j)) [0..<20] = replicate 20 ''-113,Undefined header''"
    by (simp only: strip_examples map_replicate_const) simp
  have a: "sa_check_errors (replay_transport drain_script) 20 w0
     = (Inr (map (\<lambda>j. strip (?rs j)) [0..<Suc (Suc (Suc 0))]),
        log_events (replicate (Suc (Suc (Suc 0))) (Query ''SYST:ERR?'')) w0)"
    using T1 h1 h2 h3 k by blast
  have b: "sa_check_errors (table_transport always_error) 20 w0
     = (Inr (map (\<lambda>j. strip (?cs j)) [0..<nat 20]),
        log_events (replicate (nat 20) (Query ''SYST:ERR?'')) w0)"
    using T2 h4 by blast
  have c: "vna_check_errors (replay_transport drain_script) w0
     = (Inr (map (\<lambda>j. strip (?rs j)) [0..<Suc (Suc (Suc 0))]),
        log_events (replicate (Suc (Suc (Suc 0))) (Query ''SYST:ERR?'')) w0)"
    using T1 h1v h2 h3 k by blast
  have d: "vna_check_errors (table_transport always_error) w0
     = (Inr (map (\<lambda>j. strip (?cs j)) [0..<20]),
        log_events (replicate 20 (Query ''SYST:ERR?'')) w0)"
    using T2 h4v by blast
  have n20: "nat 20 = 20" by simp
  show ?thesis
    unfolding a b c d n20 m3 m20 by (simp add: numeral_3_eq_3)
qed


section \<open>Validation before I/O: span and marker\<close>

text \<open>
  Claim C6. With \<open>stop \<le> start\<close> both span setters raise their
  \<open>ValueError\<close> and leave the world as it was: nothing is written to (or
  read from) the instrument.
\<close>

theorem set_span_rejects_without_io:
  "fle stop_hz start_hz \<Longrightarrow>
     sa_set_span fmt t start_hz stop_hz points w
       = (Inl (ValueError ''stop_hz debe ser mayor que start_hz''), w)
   \<and> vna_set_span fmt t start_hz stop_hz points w
       = (Inl (ValueError ''Stop frequency must be greater than start frequency''), w)"
  by (simp add: sa_set_span_def vna_set_span_def raise_io_def)

theorem set_span_rejects_without_io_witness:
  "fle (Fin 1000) (Fin 2000)
   \<and> sa_set_span example_format pyvisa_transport (Fin 2000) (Fin 1000) 1001 w0
       = (Inl (ValueError ''stop_hz debe ser mayor que start_hz''), w0)
   \<and> vna_set_span example_format pyvisa_transport (Fin 2000) (Fin 1000) 201 w0
       = (Inl (ValueError ''Stop frequency must be greater than start frequency''), w0)"
proof -
  have h: "fle (Fin 1000) (Fin 2000)" by simp
  show ?thesis
    using h set_span_rejects_without_io[OF h, of example_format pyvisa_transport 1001 w0]
      set_span_rejects_without_io[OF h, of example_format pyvisa_transport 201 w0]
    by simp
qed

lemma try_query_loop_log:
  "\<exists>m\<le>length cs. snd (try_query_loop t cs le w) = log_events (map Query (take m cs)) w
      \<and> (\<not> isl (fst (try_query_loop t cs le w)) \<longrightarrow> 0 < m)"
proof (induction cs arbitrary: le w)
  case Nil
  show ?case by (simp add: log_events_Nil)
next
  case (Cons c cs)
  show ?case
  proof (cases "fst (sa_query t c w)")
    case (Inl e)
    then have q: "sa_query t c w = (Inl e, log_event (Query c) w)"
      using sa_query_eq[of t c w] by simp
    from Cons.IH[of "Some e" "log_event (Query c) w"] obtain m where
      m: "m \<le> length cs"
         "snd (try_query_loop t cs (Some e) (log_event (Query c) w))
            = log_events (map Query (take m cs)) (log_event (Query c) w)"
         "\<not> isl (fst (try_query_loop t cs (Some e) (log_event (Query c) w))) \<longrightarrow> 0 < m"
      by blast
    have "Suc m \<le> length (c # cs)" using m(1) by simp
    moreover have "snd (try_query_loop t (c # cs) le w) = log_events (map Query (take (Suc m) (c # cs))) w"
      using m(2) q by (simp add: log_events_Cons)
    ultimately show ?thesis by (metis zero_less_Suc)
  next
    case (Inr r)
    then have q: "sa_query t c w = (Inr r, log_event (Query c) w)"
      using sa_query_eq[of t c w] by simp
    have "Suc 0 \<le> length (c # cs)" by simp
    moreover have "snd (try_query_loop t (c # cs) le w) = log_events (map Query (take (Suc 0) (c # cs))) w"
      using q by (simp add: log_events_Cons log_events_Nil)
    ultimately show ?thesis by (metis zero_less_Suc)
  qed
qed

lemma sa_try_query_any_log:
  assumes "sa_try_query_any t cs w = (Inr r, w')"
  shows "\<exists>qs. qs \<noteq> [] \<and> w' = log_events (map Query qs) w"
proof -
  from try_query_loop_log[of cs t None w] obtain m where
    m: "snd (try_query_loop t cs None w) = log_events (map Query (take m cs)) w"
       "\<not> isl (fst (try_query_loop t cs None w)) \<longrightarrow> 0 < m" "m \<le> length cs" by blast
  have "0 < m" using m(2) assms by (simp add: sa_try_query_any_def)
  then have "take m cs \<noteq> []" using m(3) assms
    by (cases cs) (auto simp: sa_try_query_any_def no_variant_def)
  moreover have "w' = log_events (map Query (take m cs)) w"
    using m(1) assms by (simp add: sa_try_query_any_def)
  ultimately show ?thesis by blast
qed

lemma bind_io_Inr:
  "bind_io m f w = (Inr y, w') \<Longrightarrow> \<exists>x w1. m w = (Inr x, w1) \<and> f x w1 = (Inr y, w')"
  by (auto simp: bind_io_def split: prod.splits sum.splits)

lemma sa_get_start_stop_Inr:
  assumes "sa_get_start_stop t w = (Inr (f_start, f_stop), w1)"
  shows "\<exists>r1 r2 wa. sa_try_query_any t [''FREQ:STAR?'', ''SENS:FREQ:STAR?''] w = (Inr r1, wa)
     \<and> py_float r1 = Inr f_start
     \<and> sa_try_query_any t [''FREQ:STOP?'', ''SENS:FREQ:STOP?''] wa = (Inr r2, w1)
     \<and> py_float r2 = Inr f_stop"
  using assms unfolding sa_get_start_stop_def
  by (auto simp: bind_io_def lift_io_def return_io_def split: prod.splits sum.splits)

lemma sa_get_start_stop_log:
  assumes "sa_get_start_stop t w = (Inr (f_start, f_stop), w1)"
  shows "\<exists>qs. qs \<noteq> [] \<and> w1 = log_events (map Query qs) w"
proof -
  from sa_get_start_stop_Inr[OF assms] obtain r1 r2 wa where
    a: "sa_try_query_any t [''FREQ:STAR?'', ''SENS:FREQ:STAR?''] w = (Inr r1, wa)"
    and b: "sa_try_query_any t [''FREQ:STOP?'', ''SENS:FREQ:STOP?''] wa = (Inr r2, w1)" by blast
  from sa_try_query_any_log[OF a] obtain qa where qa: "qa \<noteq> []" "wa = log_events (map Query qa) w"
    by blast
  from sa_try_query_any_log[OF b] obtain qb where qb: "qb \<noteq> []" "w1 = log_events (map Query qb) wa"
    by blast
  have "w1 = log_events (map Query (qa @ qb)) w" using qa(2) qb(2) by (simp add: log_events_append)
  moreover have "qa @ qb \<noteq> []" using qa(1) by simp
  ultimately show ?thesis by blast
qed

text \<open>
  Claim C5, as the code has it. The marker setters first read the span back
  from the instrument. When that read-back succeeds and the frequency is outside
  the reported span, they raise the \<open>ValueError\<close>; the world is then exactly
  the one the read-back left: at least one query was issued, and no write.
\<close>

theorem set_marker_x_rejects_after_readback:
  "(sa_get_start_stop t w = (Inr (f_start, f_stop), w1) \<and> \<not> (fle f_start freq_hz \<and> fle freq_hz f_stop)
      \<longrightarrow> sa_set_marker_x fmt t idx freq_hz w
            = (Inl (ValueError (''Frecuencia '' @ fmt freq_hz @ '' fuera de span ['' @ fmt f_start
                                @ '', '' @ fmt f_stop @ '']'')), w1)
          \<and> (\<exists>qs. qs \<noteq> [] \<and> w1 = log_events (map Query qs) w))
   \<and> (vna_query t ''SENS:FREQ:STAR?'' w = (Inr r1, wa) \<and> py_float r1 = Inr f_start
      \<and> vna_query t ''SENS:FREQ:STOP?'' wa = (Inr r2, wb) \<and> py_float r2 = Inr f_stop
      \<and> \<not> (fle f_start freq_hz \<and> fle freq_hz f_stop)
      \<longrightarrow> vna_set_marker_x fmt t idx freq_hz w
            = (Inl (ValueError (''Frecuencia '' @ fmt freq_hz @ '' fuera del sweep ['' @ fmt f_start
                                @ '', '' @ fmt f_stop @ '']'')), wb)
          \<and> wb = log_events [Query ''SENS:FREQ:STAR?'', Query ''SENS:FREQ:STOP?''] w)"
proof (intro conjI impI)
  assume a: "sa_get_start_stop t w = (Inr (f_start, f_stop), w1)
      \<and> \<not> (fle f_start freq_hz \<and> fle freq_hz f_stop)"
  then show "sa_set_marker_x fmt t idx freq_hz w
      = (Inl (ValueError (''Frecuencia '' @ fmt freq_hz @ '' fuera de span ['' @ fmt f_start
                          @ '', '' @ fmt f_stop @ '']'')), w1)"
    by (simp add: sa_set_marker_x_def bind_io_def raise_io_def)
  from a show "\<exists>qs. qs \<noteq> [] \<and> w1 = log_events (map Query qs) w"
    using sa_get_start_stop_log by blast
next
  assume a: "vna_query t ''SENS:FREQ:STAR?'' w = (Inr r1, wa) \<and> py_float r1 = Inr f_start
      \<and> vna_query t ''SENS:FREQ:STOP?'' wa = (Inr r2, wb) \<and> py_float r2 = Inr f_stop
      \<and> \<not> (fle f_start freq_hz \<and> fle freq_hz f_stop)"
  then show "vna_set_marker_x fmt t idx freq_hz w
      = (Inl (ValueError (''Frecuencia '' @ fmt freq_hz @ '' fuera del sweep ['' @ fmt f_start
                          @ '', '' @ fmt f_stop @ '']'')), wb)"
    by (simp add: vna_set_marker_x_def bind_io_def raise_io_def lift_io_def)
  have "wa = log_event (Query ''SENS:FREQ:STAR?'') w"
    using a snd_vna_query[of t "''SENS:FREQ:STAR?''" w] by simp
  moreover have "wb = log_event (Query ''SENS:FREQ:STOP?'') wa"
    using a snd_vna_query[of t "''SENS:FREQ:STOP?''" wa] by simp
  ultimately show "wb = log_events [Query ''SENS:FREQ:STAR?'', Query ''SENS:FREQ:STOP?''] w"
    by (simp add: log_events_Cons log_events_Nil)
qed

lemma py_float_span: "py_float ''1000'' = Inr (Fin 1000)" "py_float ''2000'' = Inr (Fin 2000)"
  by (simp_all add: py_float_eval round_to_double_numeral)

lemma span_readback:
  "sa_get_start_stop (replay_transport span_script) w0
     = (Inr (Fin 1000, Fin 2000), \<lparr>history = [Query ''FREQ:STAR?'', Query ''FREQ:STOP?''], stdout = []\<rparr>)"
  by (simp add: sa_get_start_stop_def bind_io_def lift_io_def return_io_def sa_try_query_any_def
      sa_query_def visa_query_def replay_transport_def span_script_def w0_def log_event_def
      py_float_span)

lemma vna_span_readback:
  "vna_query (replay_transport span_script) ''SENS:FREQ:STAR?'' w0
     = (Inr ''1000'', \<lparr>history = [Query ''SENS:FREQ:STAR?''], stdout = []\<rparr>)"
  "vna_query (replay_transport span_script) ''SENS:FREQ:STOP?''
       \<lparr>history = [Query ''SENS:FREQ:STAR?''], stdout = []\<rparr>
     = (Inr ''2000'', \<lparr>history = [Query ''SENS:FREQ:STAR?'', Query ''SENS:FREQ:STOP?''], stdout = []\<rparr>)"
  by (simp_all add: vna_query_def visa_query_def replay_transport_def span_script_def w0_def
      log_event_def)

theorem set_marker_x_rejects_after_readback_witness:
  "sa_set_marker_x example_format (replay_transport span_script) 1 (Fin 5000) w0
     = (Inl (ValueError ''Frecuencia 5000.0 fuera de span [1000.0, 2000.0]''),
        \<lparr>history = [Query ''FREQ:STAR?'', Query ''FREQ:STOP?''], stdout = []\<rparr>)
   \<and> vna_set_marker_x example_format (replay_transport span_script) 1 (Fin 5000) w0
     = (Inl (ValueError ''Frecuencia 5000.0 fuera del sweep [1000.0, 2000.0]''),
        \<lparr>history = [Query ''SENS:FREQ:STAR?'', Query ''SENS:FREQ:STOP?''], stdout = []\<rparr>)"
  using set_marker_x_rejects_after_readback[of "replay_transport span_script" w0 "Fin 1000" "Fin 2000"
      "\<lparr>history = [Query ''FREQ:STAR?'', Query ''FREQ:STOP?''], stdout = []\<rparr>" "Fin 5000"
      example_format 1 "''1000''" "\<lparr>history = [Query ''SENS:FREQ:STAR?''], stdout = []\<rparr>"
      "''2000''" "\<lparr>history = [Query ''SENS:FREQ:STAR?'', Query ''SENS:FREQ:STOP?''], stdout = []\<rparr>"]
  by (simp add: span_readback vna_span_readback py_float_span example_format_def)

text \<open>
  Claim C5 as stated (no query is issued before the rejection) fails: rejecting
  5000 Hz against the span 1000..2000 Hz leaves two queries in the history.
\<close>

theorem set_marker_x_queries_before_rejecting:
  "fst (sa_set_marker_x example_format (replay_transport span_script) 1 (Fin 5000) w0)
     = Inl (ValueError ''Frecuencia 5000.0 fuera de span [1000.0, 2000.0]'')
   \<and> history (snd (sa_set_marker_x example_format (replay_transport span_script) 1 (Fin 5000) w0))
     = [Query ''FREQ:STAR?'', Query ''FREQ:STOP?'']
   \<and> history w0 = []"
proof -
  have "sa_set_marker_x example_format (replay_transport span_script) 1 (Fin 5000) w0
     = (Inl (ValueError ''Frecuencia 5000.0 fuera de span [1000.0, 2000.0]''),
        \<lparr>history = [Query ''FREQ:STAR?'', Query ''FREQ:STOP?''], stdout = []\<rparr>)"
    by (simp add: sa_set_marker_x_def bind_io_def raise_io_def span_readback example_format_def)
  then show ?thesis by (simp add: w0_def)
qed


section \<open>The AWG sine setter\<close>

lemma str_int_small: "str_int 1 = ''1''" "str_int 2 = ''2''"
  by code_simp+

text \<open>
  Claim C7, as the code has it. An amplitude below 0.001 is not rejected:
  \<open>set_sin\<close> prints a notice, replaces the amplitude by 0.001 and sends the
  sine command with that amplitude. The command is the first event added to the
  history, and the call fails only if the transport fails.
\<close>

theorem set_sin_clamps_low_amplitude:
  assumes "flt amplitude (float_lit (1 / 1000))"
  shows "awg_set_sin fmt t channel frequency amplitude offset phase w =
     (let cmd = '':SOUR'' @ str_int channel @ '':APPL:SIN '' @ fmt frequency @ '','' 
                @ fmt (float_lit (1 / 1000)) @ '','' @ fmt offset;
          w1 = log_event (Write cmd)
                 (w\<lparr>stdout := stdout w @ [''Amplitude below minimum (0.001). Setting it to 0.001.'']\<rparr>)
      in case on_write t (history w) cmd of
           Some e \<Rightarrow> (Inl e, w1)
         | None \<Rightarrow> if fne phase (float_lit 0)
                    then visa_write t ('':SOUR'' @ str_int channel @ '':PHAS '' @ fmt phase) w1
                    else (Inr (), w1))"
  using assms
  by (simp add: awg_set_sin_def bind_io_def print_io_def return_io_def visa_write_def Let_def
      log_event_def split: option.splits)

theorem set_sin_clamps_low_amplitude_witness:
  "flt (Fin 0) (float_lit (1 / 1000))
   \<and> awg_set_sin example_format pyvisa_transport 1 (Fin 1000) (Fin 0) (Fin 0) (Fin 0) w0
     = (Inr (), \<lparr>history = [Write '':SOUR1:APPL:SIN 1000.0,0.001,0.0''],
                 stdout = [''Amplitude below minimum (0.001). Setting it to 0.001.'']\<rparr>)"
proof -
  have h: "flt (Fin 0) (float_lit (1 / 1000))" by (simp add: float_lit_milli)
  have f: "example_format (float_lit (1 / 1000)) = ''0.001''"
    by (simp add: example_format_def float_lit_milli)
  show ?thesis
    using h set_sin_clamps_low_amplitude[OF h, of example_format pyvisa_transport 1 "Fin 1000"
        "Fin 0" "Fin 0" w0]
    by (simp add: f str_int_small float_lit_zero fne_def Let_def)
       (simp add: example_format_def pyvisa_transport_def w0_def log_event_def)
qed

text \<open>
  Claim C7 as stated (a validation error before any I/O) fails: with amplitude
  0 the call succeeds and the command was written, carrying 0.001.
\<close>

theorem set_sin_low_amplitude_is_sent:
  "awg_set_sin example_format pyvisa_transport 1 (Fin 1000) (Fin 0) (Fin 0) (Fin 0) w0
     = (Inr (), \<lparr>history = [Write '':SOUR1:APPL:SIN 1000.0,0.001,0.0''],
                 stdout = [''Amplitude below minimum (0.001). Setting it to 0.001.'']\<rparr>)"
proof -
  have f: "example_format (float_lit (1 / 1000)) = ''0.001''"
    by (simp add: example_format_def float_lit_milli)
  show ?thesis
    by (simp add: awg_set_sin_def bind_io_def print_io_def return_io_def visa_write_def
        float_lit_milli[symmetric] f)
       (simp add: float_lit_milli float_lit_zero fne_def str_int_small example_format_def
        pyvisa_transport_def w0_def log_event_def return_io_def)
qed

section \<open>Closing a session\<close>




section \<open>Marker delta reading\<close>

text \<open>
  Claim C9. The direct attempt reads the delta X and then the delta Y of the
  delta marker. If both queries succeed and both replies read as floats, their
  values are returned and no marker is read. The attempt fails in exactly four
  ways, each with the exception of the step that failed: the X query raises,
  the X reply does not read as a float, the Y query raises, or the Y reply does
  not read as a float. If the attempt fails, and only then, the two markers are
  read individually, the reference marker first, and \<open>(x2 - x1, y2 - y1)\<close> is
  returned, the differences computed in double precision; an exception of the
  fallback propagates. Reading a marker is two queries, its X and then its Y,
  each reply read as a float, and fails with the exception of the step that
  failed.
\<close>

theorem delta_reading_direct_or_manual:
  "(sa_try_query_any t [''CALC:MARK'' @ str_int del_idx @ '':DELT:X?'',
                        ''CALC:MARKER'' @ str_int del_idx @ '':DELTA:X?''] w = (Inr r1, wa)
      \<and> py_float r1 = Inr df
      \<and> sa_try_query_any t [''CALC:MARK'' @ str_int del_idx @ '':DELT:Y?'',
                            ''CALC:MARKER'' @ str_int del_idx @ '':DELTA:Y?''] wa = (Inr r2, wb)
      \<and> py_float r2 = Inr da
    \<longrightarrow> direct_delta t del_idx w = (Inr (df, da), wb))
   \<and> (sa_try_query_any t [''CALC:MARK'' @ str_int del_idx @ '':DELT:X?'',
                          ''CALC:MARKER'' @ str_int del_idx @ '':DELTA:X?''] w = (Inl e, wa)
    \<longrightarrow> direct_delta t del_idx w = (Inl e, wa))
   \<and> (sa_try_query_any t [''CALC:MARK'' @ str_int del_idx @ '':DELT:X?'',
                          ''CALC:MARKER'' @ str_int del_idx @ '':DELTA:X?''] w = (Inr r1, wa)
      \<and> py_float r1 = Inl e
    \<longrightarrow> direct_delta t del_idx w = (Inl e, wa))
   \<and> (sa_try_query_any t [''CALC:MARK'' @ str_int del_idx @ '':DELT:X?'',
                          ''CALC:MARKER'' @ str_int del_idx @ '':DELTA:X?''] w = (Inr r1, wa)
      \<and> py_float r1 = Inr df
      \<and> sa_try_query_any t [''CALC:MARK'' @ str_int del_idx @ '':DELT:Y?'',
                            ''CALC:MARKER'' @ str_int del_idx @ '':DELTA:Y?''] wa = (Inl e, wb)
    \<longrightarrow> direct_delta t del_idx w = (Inl e, wb))
   \<and> (sa_try_query_any t [''CALC:MARK'' @ str_int del_idx @ '':DELT:X?'',
                          ''CALC:MARKER'' @ str_int del_idx @ '':DELTA:X?''] w = (Inr r1, wa)
      \<and> py_float r1 = Inr df
      \<and> sa_try_query_any t [''CALC:MARK'' @ str_int del_idx @ '':DELT:Y?'',
                            ''CALC:MARKER'' @ str_int del_idx @ '':DELTA:Y?''] wa = (Inr r2, wb)
      \<and> py_float r2 = Inl e
    \<longrightarrow> direct_delta t del_idx w = (Inl e, wb))
   \<and> (direct_delta t del_idx w = (Inr v, w') \<longrightarrow> sa_get_delta_reading t ref_idx del_idx w = (Inr v, w'))
   \<and> (direct_delta t del_idx w = (Inl e, w') \<and> sa_get_marker_xy t ref_idx w' = (Inr (x1, y1), w1)
      \<and> sa_get_marker_xy t del_idx w1 = (Inr (x2, y2), w2)
    \<longrightarrow> sa_get_delta_reading t ref_idx del_idx w = (Inr (fsub x2 x1, fsub y2 y1), w2))
   \<and> (direct_delta t del_idx w = (Inl e, w') \<and> sa_get_marker_xy t ref_idx w' = (Inl e1, w1)
    \<longrightarrow> sa_get_delta_reading t ref_idx del_idx w = (Inl e1, w1))
   \<and> (direct_delta t del_idx w = (Inl e, w') \<and> sa_get_marker_xy t ref_idx w' = (Inr (x1, y1), w1)
      \<and> sa_get_marker_xy t del_idx w1 = (Inl e2, w2)
    \<longrightarrow> sa_get_delta_reading t ref_idx del_idx w = (Inl e2, w2))
   \<and> (sa_try_query_any t [''CALC:MARK'' @ str_int idx @ '':X?'',
                          ''CALC:MARKER'' @ str_int idx @ '':X?''] w = (Inr r1, wa)
      \<and> py_float r1 = Inr x
      \<and> sa_try_query_any t [''CALC:MARK'' @ str_int idx @ '':Y?'',
                            ''CALC:MARKER'' @ str_int idx @ '':Y?''] wa = (Inr r2, wb)
      \<and> py_float r2 = Inr y
    \<longrightarrow> sa_get_marker_xy t idx w = (Inr (x, y), wb))
   \<and> (sa_try_query_any t [''CALC:MARK'' @ str_int idx @ '':X?'',
                          ''CALC:MARKER'' @ str_int idx @ '':X?''] w = (Inl e, wa)
    \<longrightarrow> sa_get_marker_xy t idx w = (Inl e, wa))
   \<and> (sa_try_query_any t [''CALC:MARK'' @ str_int idx @ '':X?'',
                          ''CALC:MARKER'' @ str_int idx @ '':X?''] w = (Inr r1, wa)
      \<and> py_float r1 = Inl e
    \<longrightarrow> sa_get_marker_xy t idx w = (Inl e, wa))
   \<and> (sa_try_query_any t [''CALC:MARK'' @ str_int idx @ '':X?'',
                          ''CALC:MARKER'' @ str_int idx @ '':X?''] w = (Inr r1, wa)
      \<and> py_float r1 = Inr x
      \<and> sa_try_query_any t [''CALC:MARK'' @ str_int idx @ '':Y?'',
                            ''CALC:MARKER'' @ str_int idx @ '':Y?''] wa = (Inl e, wb)
    \<longrightarrow> sa_get_marker_xy t idx w = (Inl e, wb))
   \<and> (sa_try_query_any t [''CALC:MARK'' @ str_int idx @ '':X?'',
                          ''CALC:MARKER'' @ str_int idx @ '':X?''] w = (Inr r1, wa)
      \<and> py_float r1 = Inr x
      \<and> sa_try_query_any t [''CALC:MARK'' @ str_int idx @ '':Y?'',
                            ''CALC:MARKER'' @ str_int idx @ '':Y?''] wa = (Inr r2, wb)
      \<and> py_float r2 = Inl e
    \<longrightarrow> sa_get_marker_xy t idx w = (Inl e, wb))"
proof -
  have direct: "direct_delta t del_idx w =
      (case sa_try_query_any t [''CALC:MARK'' @ str_int del_idx @ '':DELT:X?'',
                                ''CALC:MARKER'' @ str_int del_idx @ '':DELTA:X?''] w of
         (Inl e, wa) \<Rightarrow> (Inl e, wa)
       | (Inr r1, wa) \<Rightarrow>
           (case py_float r1 of
              Inl e \<Rightarrow> (Inl e, wa)
            | Inr df \<Rightarrow>
                (case sa_try_query_any t [''CALC:MARK'' @ str_int del_idx @ '':DELT:Y?'',
                                          ''CALC:MARKER'' @ str_int del_idx @ '':DELTA:Y?''] wa of
                   (Inl e, wb) \<Rightarrow> (Inl e, wb)
                 | (Inr r2, wb) \<Rightarrow>
                     (case py_float r2 of Inl e \<Rightarrow> (Inl e, wb) | Inr da \<Rightarrow> (Inr (df, da), wb)))))"
    by (simp add: direct_delta_def bind_io_def return_io_def lift_io_def
        split: prod.splits sum.splits)
  have marker: "sa_get_marker_xy t idx w =
      (case sa_try_query_any t [''CALC:MARK'' @ str_int idx @ '':X?'',
                                ''CALC:MARKER'' @ str_int idx @ '':X?''] w of
         (Inl e, wa) \<Rightarrow> (Inl e, wa)
       | (Inr r1, wa) \<Rightarrow>
           (case py_float r1 of
              Inl e \<Rightarrow> (Inl e, wa)
            | Inr x \<Rightarrow>
                (case sa_try_query_any t [''CALC:MARK'' @ str_int idx @ '':Y?'',
                                          ''CALC:MARKER'' @ str_int idx @ '':Y?''] wa of
                   (Inl e, wb) \<Rightarrow> (Inl e, wb)
                 | (Inr r2, wb) \<Rightarrow>
                     (case py_float r2 of Inl e \<Rightarrow> (Inl e, wb) | Inr y \<Rightarrow> (Inr (x, y), wb)))))"
    by (simp add: sa_get_marker_xy_def bind_io_def return_io_def lift_io_def
        split: prod.splits sum.splits)
  have reading: "sa_get_delta_reading t ref_idx del_idx w =
      (case direct_delta t del_idx w of
         (Inr v, w') \<Rightarrow> (Inr v, w')
       | (Inl e, w') \<Rightarrow>
           (case sa_get_marker_xy t ref_idx w' of
              (Inl e1, w1) \<Rightarrow> (Inl e1, w1)
            | (Inr (x1, y1), w1) \<Rightarrow>
                (case sa_get_marker_xy t del_idx w1 of
                   (Inl e2, w2) \<Rightarrow> (Inl e2, w2)
                 | (Inr (x2, y2), w2) \<Rightarrow> (Inr (fsub x2 x1, fsub y2 y1), w2))))"
    by (simp add: sa_get_delta_reading_def manual_delta_def bind_io_def return_io_def
        split: prod.splits sum.splits)
  show ?thesis
    unfolding direct marker reading
    by (intro conjI impI) simp_all
qed

lemma marker_table_values:
  "py_float ''100'' = Inr (Fin 100)" "py_float ''250'' = Inr (Fin 250)"
  "py_float ''-10'' = Inr (Fin (- 10))" "py_float ''-30'' = Inr (Fin (- 30))"
  "py_float ''150'' = Inr (Fin 150)"
  "py_float (CHR 0x1F # ''-20'') = Inl (float_error (CHR 0x1F # ''-20''))"
  by (simp_all add: py_float_eval round_to_double_numeral)

lemma marker_table_runs:
  "direct_delta (table_transport marker_table) 2 w0
     = (Inl (RuntimeError (''VISA query error en '' @ quote ''CALC:MARKER2:DELTA:X?'' @ '': unsupported'')),
        \<lparr>history = [Query ''CALC:MARK2:DELT:X?'', Query ''CALC:MARKER2:DELTA:X?''], stdout = []\<rparr>)"
  "sa_get_marker_xy (table_transport marker_table) 1
       \<lparr>history = [Query ''CALC:MARK2:DELT:X?'', Query ''CALC:MARKER2:DELTA:X?''], stdout = []\<rparr>
     = (Inr (Fin 100, Fin (- 10)),
        \<lparr>history = [Query ''CALC:MARK2:DELT:X?'', Query ''CALC:MARKER2:DELTA:X?'',
                    Query ''CALC:MARK1:X?'', Query ''CALC:MARK1:Y?''], stdout = []\<rparr>)"
  "sa_get_marker_xy (table_transport marker_table) 2
       \<lparr>history = [Query ''CALC:MARK2:DELT:X?'', Query ''CALC:MARKER2:DELTA:X?'',
                   Query ''CALC:MARK1:X?'', Query ''CALC:MARK1:Y?''], stdout = []\<rparr>
     = (Inr (Fin 250, Fin (- 30)),
        \<lparr>history = [Query ''CALC:MARK2:DELT:X?'', Query ''CALC:MARKER2:DELTA:X?'',
                    Query ''CALC:MARK1:X?'', Query ''CALC:MARK1:Y?'',
                    Query ''CALC:MARK2:X?'', Query ''CALC:MARK2:Y?''], stdout = []\<rparr>)"
  by (simp_all add: direct_delta_def sa_get_marker_xy_def bind_io_def return_io_def lift_io_def
      sa_try_query_any_def sa_query_def visa_query_def table_transport_def marker_table_def
      wrap_query_error_def str_int_small w0_def log_event_def marker_table_values)

lemma garbled_delta_runs:
  "sa_try_query_any (table_transport garbled_delta_table)
       [''CALC:MARK2:DELT:X?'', ''CALC:MARKER2:DELTA:X?''] w0
     = (Inr ''150'', \<lparr>history = [Query ''CALC:MARK2:DELT:X?''], stdout = []\<rparr>)"
  "sa_try_query_any (table_transport garbled_delta_table)
       [''CALC:MARK2:DELT:Y?'', ''CALC:MARKER2:DELTA:Y?'']
       \<lparr>history = [Query ''CALC:MARK2:DELT:X?''], stdout = []\<rparr>
     = (Inr (CHR 0x1F # ''-20''),
        \<lparr>history = [Query ''CALC:MARK2:DELT:X?'', Query ''CALC:MARK2:DELT:Y?''], stdout = []\<rparr>)"
  "sa_get_marker_xy (table_transport garbled_delta_table) 1
       \<lparr>history = [Query ''CALC:MARK2:DELT:X?'', Query ''CALC:MARK2:DELT:Y?''], stdout = []\<rparr>
     = (Inr (Fin 100, Fin (- 10)),
        \<lparr>history = [Query ''CALC:MARK2:DELT:X?'', Query ''CALC:MARK2:DELT:Y?'',
                    Query ''CALC:MARK1:X?'', Query ''CALC:MARK1:Y?''], stdout = []\<rparr>)"
  "sa_get_marker_xy (table_transport garbled_delta_table) 2
       \<lparr>history = [Query ''CALC:MARK2:DELT:X?'', Query ''CALC:MARK2:DELT:Y?'',
                   Query ''CALC:MARK1:X?'', Query ''CALC:MARK1:Y?''], stdout = []\<rparr>
     = (Inr (Fin 250, Fin (- 30)),
        \<lparr>history = [Query ''CALC:MARK2:DELT:X?'', Query ''CALC:MARK2:DELT:Y?'',
                    Query ''CALC:MARK1:X?'', Query ''CALC:MARK1:Y?'',
                    Query ''CALC:MARK2:X?'', Query ''CALC:MARK2:Y?''], stdout = []\<rparr>)"
  by (simp_all add: sa_get_marker_xy_def bind_io_def return_io_def lift_io_def
      sa_try_query_any_def sa_query_def visa_query_def table_transport_def garbled_delta_table_def
      marker_table_def str_int_small w0_def log_event_def marker_table_values)

theorem delta_reading_direct_or_manual_witness:
  "sa_get_delta_reading (table_transport marker_table) 1 2 w0
     = (Inr (Fin 150, Fin (- 20)),
        \<lparr>history = [Query ''CALC:MARK2:DELT:X?'', Query ''CALC:MARKER2:DELTA:X?'',
                    Query ''CALC:MARK1:X?'', Query ''CALC:MARK1:Y?'',
                    Query ''CALC:MARK2:X?'', Query ''CALC:MARK2:Y?''], stdout = []\<rparr>)
   \<and> sa_get_delta_reading (table_transport garbled_delta_table) 1 2 w0
     = (Inr (Fin 150, Fin (- 20)),
        \<lparr>history = [Query ''CALC:MARK2:DELT:X?'', Query ''CALC:MARK2:DELT:Y?'',
                    Query ''CALC:MARK1:X?'', Query ''CALC:MARK1:Y?'',
                    Query ''CALC:MARK2:X?'', Query ''CALC:MARK2:Y?''], stdout = []\<rparr>)"
proof -
  have d: "fsub (Fin 250) (Fin 100) = Fin 150" "fsub (Fin (- 30)) (Fin (- 10)) = Fin (- 20)"
    by (simp_all add: fsub_def round_to_double_numeral)
  note T1 = delta_reading_direct_or_manual[where t = "table_transport marker_table" and del_idx = 2
        and w = w0 and ref_idx = 1 and ?x1.0 = "Fin 100" and ?y1.0 = "Fin (- 10)" and ?x2.0 = "Fin 250"
        and ?y2.0 = "Fin (- 30)"
        and e = "RuntimeError (''VISA query error en '' @ quote ''CALC:MARKER2:DELTA:X?'' @ '': unsupported'')"
        and w' = "\<lparr>history = [Query ''CALC:MARK2:DELT:X?'', Query ''CALC:MARKER2:DELTA:X?''], stdout = []\<rparr>"
        and ?w1.0 = "\<lparr>history = [Query ''CALC:MARK2:DELT:X?'', Query ''CALC:MARKER2:DELTA:X?'',
                    Query ''CALC:MARK1:X?'', Query ''CALC:MARK1:Y?''], stdout = []\<rparr>"
        and ?w2.0 = "\<lparr>history = [Query ''CALC:MARK2:DELT:X?'', Query ''CALC:MARKER2:DELTA:X?'',
                    Query ''CALC:MARK1:X?'', Query ''CALC:MARK1:Y?'',
                    Query ''CALC:MARK2:X?'', Query ''CALC:MARK2:Y?''], stdout = []\<rparr>"]
  note T2 = delta_reading_direct_or_manual[where t = "table_transport garbled_delta_table"
        and del_idx = 2 and w = w0 and ref_idx = 1
        and ?r1.0 = "''150''" and df = "Fin 150" and ?r2.0 = "CHR 0x1F # ''-20''"
        and wa = "\<lparr>history = [Query ''CALC:MARK2:DELT:X?''], stdout = []\<rparr>"
        and wb = "\<lparr>history = [Query ''CALC:MARK2:DELT:X?'', Query ''CALC:MARK2:DELT:Y?''], stdout = []\<rparr>"
        and e = "float_error (CHR 0x1F # ''-20'')"
        and w' = "\<lparr>history = [Query ''CALC:MARK2:DELT:X?'', Query ''CALC:MARK2:DELT:Y?''], stdout = []\<rparr>"
        and ?x1.0 = "Fin 100" and ?y1.0 = "Fin (- 10)" and ?x2.0 = "Fin 250" and ?y2.0 = "Fin (- 30)"
        and ?w1.0 = "\<lparr>history = [Query ''CALC:MARK2:DELT:X?'', Query ''CALC:MARK2:DELT:Y?'',
                    Query ''CALC:MARK1:X?'', Query ''CALC:MARK1:Y?''], stdout = []\<rparr>"
        and ?w2.0 = "\<lparr>history = [Query ''CALC:MARK2:DELT:X?'', Query ''CALC:MARK2:DELT:Y?'',
                    Query ''CALC:MARK1:X?'', Query ''CALC:MARK1:Y?'',
                    Query ''CALC:MARK2:X?'', Query ''CALC:MARK2:Y?''], stdout = []\<rparr>"]
  have a: "sa_get_delta_reading (table_transport marker_table) 1 2 w0
     = (Inr (Fin 150, Fin (- 20)),
        \<lparr>history = [Query ''CALC:MARK2:DELT:X?'', Query ''CALC:MARKER2:DELTA:X?'',
                    Query ''CALC:MARK1:X?'', Query ''CALC:MARK1:Y?'',
                    Query ''CALC:MARK2:X?'', Query ''CALC:MARK2:Y?''], stdout = []\<rparr>)"
    using T1[THEN conjunct2, THEN conjunct2, THEN conjunct2, THEN conjunct2, THEN conjunct2, THEN conjunct2, THEN conjunct1] by (simp add: marker_table_runs d)
  have dd: "direct_delta (table_transport garbled_delta_table) 2 w0
     = (Inl (float_error (CHR 0x1F # ''-20'')),
        \<lparr>history = [Query ''CALC:MARK2:DELT:X?'', Query ''CALC:MARK2:DELT:Y?''], stdout = []\<rparr>)"
    using T2[THEN conjunct2, THEN conjunct2, THEN conjunct2, THEN conjunct2, THEN conjunct1] by (simp add: str_int_small garbled_delta_runs marker_table_values)
  have b: "sa_get_delta_reading (table_transport garbled_delta_table) 1 2 w0
     = (Inr (Fin 150, Fin (- 20)),
        \<lparr>history = [Query ''CALC:MARK2:DELT:X?'', Query ''CALC:MARK2:DELT:Y?'',
                    Query ''CALC:MARK1:X?'', Query ''CALC:MARK1:Y?'',
                    Query ''CALC:MARK2:X?'', Query ''CALC:MARK2:Y?''], stdout = []\<rparr>)"
    using T2[THEN conjunct2, THEN conjunct2, THEN conjunct2, THEN conjunct2, THEN conjunct2, THEN conjunct2, THEN conjunct1] dd by (simp add: garbled_delta_runs d)
  show ?thesis using a b by simp
qed

section \<open>Fetching a trace\<close>

lemma py_float_error: "py_float s = Inl e \<Longrightarrow> e = float_error s"
  by (auto simp: py_float_def Let_def split: option.splits prod.splits if_splits)

lemma parse_lenient_values: "parse_lenient ps vals = Inr (vals @ lenient_values ps)"
proof (induction ps arbitrary: vals)
  case Nil
  show ?case by (simp add: lenient_values_def)
next
  case (Cons p ps)
  show ?case
  proof (cases "strip p = []")
    case True
    then show ?thesis using Cons.IH[of vals]
      by (simp add: lenient_values_def token_value_def)
  next
    case False
    show ?thesis
    proof (cases "py_float (strip p)")
      case (Inl e)
      then have "e = float_error (strip p)" by (rule py_float_error)
      then show ?thesis using Inl False Cons.IH[of vals]
        by (simp add: lenient_values_def token_value_def float_error_def)
    next
      case (Inr v)
      then show ?thesis using False Cons.IH[of "vals @ [v]"]
        by (simp add: lenient_values_def token_value_def)
    qed
  qed
qed



lemma float_lit_examples:
  "float_lit (- 21 / 2) = Fin (- 21 / 2)"
  "float_lit (- 201 / 10) = Fin (- (2828823515942093 / 140737488355328))"
  "float_lit (- 5) = Fin (- 5)"
proof -
  have a: "round_to_double (21 / 2) = Fin (21 / 2)"
    using round_to_double_pos[of "21 / 2" 3 5910974510923776] by (simp add: power_int_minus)
  have b: "round_to_double (201 / 10) = Fin (2828823515942093 / 140737488355328)"
    using round_to_double_pos[of "201 / 10" 4 5657647031884186] by (simp add: power_int_minus)
  have m: "\<And>x::rat. - x / 2 = - (x / 2)" "\<And>x::rat. - x / 10 = - (x / 10)" by simp_all
  show "float_lit (- 21 / 2) = Fin (- 21 / 2)"
    unfolding float_lit_def m round_to_double_minus a by simp
  show "float_lit (- 201 / 10) = Fin (- (2828823515942093 / 140737488355328))"
    unfolding float_lit_def m round_to_double_minus b by simp
  show "float_lit (- 5) = Fin (- 5)"
    by (simp add: float_lit_def round_to_double_numeral)
qed

lemma example_reply_parts:
  "first_parts ''-10.5,-20.1,,abc,-5.0'' = [''-10.5'', ''-20.1'', '''', ''abc'', ''-5.0'']"
  by (simp add: first_parts_def replace_char_def newline_def)

lemma example_reply_values:
  "lenient_values [''-10.5'', ''-20.1'', '''', ''abc'', ''-5.0'']
     = [float_lit (- 21 / 2), float_lit (- 201 / 10), float_lit (- 5)]"
proof -
  have "py_float ''-10.5'' = Inr (float_lit (- 21 / 2))" "py_float ''-20.1'' = Inr (float_lit (- 201 / 10))"
    "py_float ''-5.0'' = Inr (float_lit (- 5))" "py_float ''abc'' = Inl (float_error ''abc'')"
    by (simp_all add: py_float_eval float_lit_def)
  moreover have "strip ''-10.5'' = ''-10.5''" "strip ''-20.1'' = ''-20.1''" "strip ''-5.0'' = ''-5.0''"
    "strip ''abc'' = ''abc''" "strip '''' = ''''"
    by (simp_all add: strip_def is_space_def)
  ultimately show ?thesis
    by (simp add: lenient_values_def token_value_def)
qed

text \<open>
  Claim C4. Whatever reply the trace query returns, if the first parse finds
  at least one value then \<open>fetch_trace\<close> returns the values of the parts, in
  the order of the parts, blank parts and parts that do not read as a float
  left out, and does no further I/O. The parts are cut at commas, semicolons
  and newlines. For the reply of the example the result is the list of the
  doubles -10.5, -20.1 and -5.0.
\<close>

theorem fetch_trace_skips_bad_tokens:
  "(sa_try_query_any t (trace_queries (trace_name trace)) w = (Inr data_str, w')
      \<and> lenient_values (first_parts data_str) \<noteq> []
    \<longrightarrow> sa_fetch_trace t trace w = (Inr (lenient_values (first_parts data_str)), w'))
   \<and> first_parts (''1;2'' @ [newline] @ ''3,4'') = [''1'', ''2'', ''3'', ''4'']
   \<and> lenient_values (first_parts ''-10.5,-20.1,,abc,-5.0'')
       = [float_lit (- 21 / 2), float_lit (- 201 / 10), float_lit (- 5)]
   \<and> [float_lit (- 21 / 2), float_lit (- 201 / 10), float_lit (- 5)]
       = [Fin (- 21 / 2), Fin (- (2828823515942093 / 140737488355328)), Fin (- 5)]"
proof (intro conjI impI)
  assume "sa_try_query_any t (trace_queries (trace_name trace)) w = (Inr data_str, w')
      \<and> lenient_values (first_parts data_str) \<noteq> []"
  then show "sa_fetch_trace t trace w = (Inr (lenient_values (first_parts data_str)), w')"
    by (simp add: sa_fetch_trace_def bind_io_def lift_io_def return_io_def parse_lenient_values Let_def)
next
  show "first_parts (''1;2'' @ [newline] @ ''3,4'') = [''1'', ''2'', ''3'', ''4'']"
    by (simp add: first_parts_def replace_char_def newline_def)
  show "lenient_values (first_parts ''-10.5,-20.1,,abc,-5.0'')
       = [float_lit (- 21 / 2), float_lit (- 201 / 10), float_lit (- 5)]"
    by (simp only: example_reply_parts example_reply_values)
  show "[float_lit (- 21 / 2), float_lit (- 201 / 10), float_lit (- 5)]
       = [Fin (- 21 / 2), Fin (- (2828823515942093 / 140737488355328)), Fin (- 5)]"
    by (simp only: float_lit_examples)
qed

lemma trace_name_1: "trace_name (Inl 1) = ''TRACE1''"
  by (simp add: trace_name_def str_int_small)

lemma trace_table_query:
  "sa_try_query_any (table_transport trace_table) (trace_queries ''TRACE1'') w0
     = (Inr ''-10.5,-20.1,,abc,-5.0'', \<lparr>history = [Query ''TRAC:DATA? TRACE1''], stdout = []\<rparr>)"
  by (simp add: sa_try_query_any_def trace_queries_def sa_query_def visa_query_def
      table_transport_def trace_table_def w0_def log_event_def)

theorem fetch_trace_skips_bad_tokens_witness:
  "sa_fetch_trace (table_transport trace_table) (Inl 1) w0
     = (Inr [float_lit (- 21 / 2), float_lit (- 201 / 10), float_lit (- 5)],
        \<lparr>history = [Query ''TRAC:DATA? TRACE1''], stdout = []\<rparr>)"
  using fetch_trace_skips_bad_tokens[of "table_transport trace_table" "Inl 1" w0
      "''-10.5,-20.1,,abc,-5.0''" "\<lparr>history = [Query ''TRAC:DATA? TRACE1''], stdout = []\<rparr>",
      THEN conjunct1]
  by (simp only: trace_name_1 trace_table_query example_reply_parts example_reply_values) simp
















section \<open>The frequency axis\<close>






















end
